theory Spec2Isabelle
  imports Main "HOL-Library.Sublist"
begin

section \<open>Strings as JavaScript and CSS read them\<close>

text \<open>
  A string is a list of code units below U+0100, each a \<open>char\<close>; text with code units
  beyond them is outside the model. \<open>js_space\<close> is what \<open>String.prototype.trim\<close> and the
  regular expression class \<open>\s\<close> call whitespace among these code units, the no-break
  space U+00A0 included; \<open>css_space\<close> is the whitespace of CSS selectors and of HTML token
  lists (no vertical tab, no no-break space).
\<close>

definition js_space :: "char \<Rightarrow> bool" where
  "js_space c =
     (c \<in> set [CHR '' '', CHR 0x09, CHR 0x0A, CHR 0x0B, CHR 0x0C, CHR 0x0D, CHR 0xA0])"

definition css_space :: "char \<Rightarrow> bool" where
  "css_space c = (c \<in> set [CHR '' '', CHR 0x09, CHR 0x0A, CHR 0x0C, CHR 0x0D])"

text \<open>Lower case of the letters A to Z only, as CSS and HTML compare names and flags.\<close>

definition ascii_lower_char :: "char \<Rightarrow> char" where
  "ascii_lower_char c =
     (case map_of (zip ''ABCDEFGHIJKLMNOPQRSTUVWXYZ'' ''abcdefghijklmnopqrstuvwxyz'') c of
        Some l \<Rightarrow> l
      | None \<Rightarrow> c)"

definition ascii_lower :: "string \<Rightarrow> string" where
  "ascii_lower s = map ascii_lower_char s"

text \<open>\<open>String.prototype.toLowerCase\<close>: also the capital letters U+00C0 to U+00DE, without
  the multiplication sign U+00D7.\<close>

definition toLowerCase_char :: "char \<Rightarrow> char" where
  "toLowerCase_char c =
     (case map_of
             (zip
                [CHR 0xC0, CHR 0xC1, CHR 0xC2, CHR 0xC3, CHR 0xC4, CHR 0xC5, CHR 0xC6, CHR 0xC7,
                 CHR 0xC8, CHR 0xC9, CHR 0xCA, CHR 0xCB, CHR 0xCC, CHR 0xCD, CHR 0xCE, CHR 0xCF,
                 CHR 0xD0, CHR 0xD1, CHR 0xD2, CHR 0xD3, CHR 0xD4, CHR 0xD5, CHR 0xD6, CHR 0xD8,
                 CHR 0xD9, CHR 0xDA, CHR 0xDB, CHR 0xDC, CHR 0xDD, CHR 0xDE]
                [CHR 0xE0, CHR 0xE1, CHR 0xE2, CHR 0xE3, CHR 0xE4, CHR 0xE5, CHR 0xE6, CHR 0xE7,
                 CHR 0xE8, CHR 0xE9, CHR 0xEA, CHR 0xEB, CHR 0xEC, CHR 0xED, CHR 0xEE, CHR 0xEF,
                 CHR 0xF0, CHR 0xF1, CHR 0xF2, CHR 0xF3, CHR 0xF4, CHR 0xF5, CHR 0xF6, CHR 0xF8,
                 CHR 0xF9, CHR 0xFA, CHR 0xFB, CHR 0xFC, CHR 0xFD, CHR 0xFE]) c of
        Some l \<Rightarrow> l
      | None \<Rightarrow> ascii_lower_char c)"

definition toLowerCase :: "string \<Rightarrow> string" where
  "toLowerCase s = map toLowerCase_char s"

definition js_trim :: "string \<Rightarrow> string" where
  "js_trim s = rev (dropWhile js_space (rev (dropWhile js_space s)))"

text \<open>\<open>text.replace(/\s+/g, ' ')\<close>: every maximal run of whitespace becomes one space.\<close>

fun collapse_runs :: "bool \<Rightarrow> string \<Rightarrow> string" where
  "collapse_runs in_run [] = []"
| "collapse_runs in_run (c # cs) =
     (if js_space c
      then (if in_run then collapse_runs True cs else CHR '' '' # collapse_runs True cs)
      else c # collapse_runs False cs)"

text \<open>
  \<open>text.replace(pattern, '')\<close> with a string pattern: the first occurrence of the pattern
  is removed, wherever it stands; an absent pattern leaves the text as it is.
\<close>

fun replace_first :: "string \<Rightarrow> string \<Rightarrow> string" where
  "replace_first [] pat = []"
| "replace_first (c # cs) pat =
     (if prefix pat (c # cs) then drop (length pat) (c # cs) else c # replace_first cs pat)"

fun includes_str :: "string \<Rightarrow> string \<Rightarrow> bool" where
  "includes_str [] pat = (pat = [])"
| "includes_str (c # cs) pat = (prefix pat (c # cs) \<or> includes_str cs pat)"

text \<open>The words of a whitespace-separated token list, in order.\<close>

fun tokens_go :: "string \<Rightarrow> string \<Rightarrow> string list" where
  "tokens_go w [] = (if w = [] then [] else [w])"
| "tokens_go w (c # cs) =
     (if css_space c then (if w = [] then tokens_go [] cs else w # tokens_go [] cs)
      else tokens_go (w @ [c]) cs)"

definition token_list :: "string \<Rightarrow> string list" where
  "token_list s = tokens_go [] s"

section \<open>Errors\<close>

text \<open>
  Every exception of the queries is a value. \<open>SyntaxError\<close> is what the selector engine
  raises on a selector it cannot parse (it carries the selector text), \<open>NotModelled\<close>
  marks selector syntax outside the grammar of \<open>css_parse\<close> below, \<open>TypeError\<close> a method
  called on \<open>null\<close> or on a value that has no such method, \<open>ContainerError\<close> the
  refusal of \<open>checkContainerType\<close>, \<open>ConfigurationError\<close> the refusal of
  \<open>makeNormalizer\<close>, and \<open>Reported\<close> wraps the value that the configured
  \<open>getElementError\<close> built.
\<close>

datatype 'e error =
    SyntaxError string
  | NotModelled string
  | TypeError
  | ContainerError
  | ConfigurationError
  | Reported 'e

definition thenE :: "'x + 'a \<Rightarrow> ('a \<Rightarrow> 'x + 'b) \<Rightarrow> 'x + 'b" where
  "thenE r f = (case r of Inl e \<Rightarrow> Inl e | Inr v \<Rightarrow> f v)"

text \<open>\<open>Array.prototype.map\<close> and \<open>filter\<close> with a callback that may throw: the first
  exception ends the loop.\<close>

fun mapE :: "('a \<Rightarrow> 'x + 'b) \<Rightarrow> 'a list \<Rightarrow> 'x + 'b list" where
  "mapE f [] = Inr []"
| "mapE f (x # xs) =
     (case f x of
        Inl e \<Rightarrow> Inl e
      | Inr y \<Rightarrow> (case mapE f xs of Inl e \<Rightarrow> Inl e | Inr ys \<Rightarrow> Inr (y # ys)))"

fun filterE :: "('a \<Rightarrow> 'x + bool) \<Rightarrow> 'a list \<Rightarrow> 'x + 'a list" where
  "filterE f [] = Inr []"
| "filterE f (x # xs) =
     (case f x of
        Inl e \<Rightarrow> Inl e
      | Inr b \<Rightarrow>
          (case filterE f xs of
             Inl e \<Rightarrow> Inl e
           | Inr ys \<Rightarrow> Inr (if b then x # ys else ys)))"

text \<open>\<open>Array.from(new Set(xs))\<close>: insertion order, the first occurrence of each entry kept.\<close>

fun from_Set :: "'a list \<Rightarrow> 'a list \<Rightarrow> 'a list" where
  "from_Set seen [] = []"
| "from_Set seen (x # xs) =
     (if x \<in> set seen then from_Set seen xs else x # from_Set (x # seen) xs)"

section \<open>The document tree\<close>

text \<open>
  What reading the \<open>value\<close> property of a node gives: \<open>undefined\<close>, a string, or a number.
  The code reads of a number only whether it is truthy and, where a string is needed,
  the text that \<open>String\<close> makes of it; a number is kept as that text.
\<close>

datatype js_value = Undefined | JString string | JNumber string

fun truthy_value :: "js_value \<Rightarrow> bool" where
  "truthy_value Undefined = False"
| "truthy_value (JString s) = (s \<noteq> [])"
| "truthy_value (JNumber t) = (t \<noteq> ''0'' \<and> t \<noteq> ''NaN'')"

fun to_string :: "js_value \<Rightarrow> string" where
  "to_string Undefined = ''undefined''"
| "to_string (JString s) = s"
| "to_string (JNumber t) = t"

text \<open>
  A snapshot of the DOM. An element has its tag name (lower case), its attributes (names in
  lower case, as HTML stores them), what its \<open>value\<close> property reads at the time of the
  snapshot (a string on a text field, a \<open>textarea\<close>, a \<open>select\<close> or an \<open>option\<close>, a
  number on a \<open>meter\<close>, a \<open>progress\<close> or an \<open>li\<close>, \<open>undefined\<close> on an element that has no
  such property), and its child nodes. A node reference is the path of child indices
  from the root of the document, so two references are the same object exactly when the
  paths are equal.
\<close>

datatype node =
    Element string "(string \<times> string) list" js_value "node list"
  | Text string

type_synonym path = "nat list"

fun childNodes :: "node \<Rightarrow> node list" where
  "childNodes (Element t as v ks) = ks"
| "childNodes (Text s) = []"

fun tagName :: "node \<Rightarrow> string option" where
  "tagName (Element t as v ks) = Some t"
| "tagName (Text s) = None"

fun getAttribute :: "node \<Rightarrow> string \<Rightarrow> string option" where
  "getAttribute (Element t as v ks) a = map_of as a"
| "getAttribute (Text s) a = None"

fun textContent :: "node \<Rightarrow> string" where
  "textContent (Text s) = s"
| "textContent (Element t as v ks) = concat (map textContent ks)"

text \<open>The \<open>value\<close> property, as the snapshot has it; a text node has none.\<close>

fun value_prop :: "node \<Rightarrow> js_value" where
  "value_prop (Text s) = Undefined"
| "value_prop (Element t as v ks) = v"

fun node_at :: "node \<Rightarrow> path \<Rightarrow> node option" where
  "node_at n [] = Some n"
| "node_at (Text s) (i # p) = None"
| "node_at (Element t as v ks) (i # p) = (if i < length ks then node_at (ks ! i) p else None)"

definition element_at :: "node \<Rightarrow> path \<Rightarrow> node option" where
  "element_at doc p =
     (case node_at doc p of
        Some (Element t as v ks) \<Rightarrow> Some (Element t as v ks)
      | _ \<Rightarrow> None)"

text \<open>The elements of a subtree in document (pre-)order, the root first, as relative paths.\<close>

fun element_paths :: "node \<Rightarrow> path list"
  and element_paths_from :: "nat \<Rightarrow> node list \<Rightarrow> path list" where
  "element_paths (Text s) = []"
| "element_paths (Element t as v ks) = [] # element_paths_from 0 ks"
| "element_paths_from i [] = []"
| "element_paths_from i (k # ks) =
     map ((#) i) (element_paths k) @ element_paths_from (Suc i) ks"

definition descendants :: "node \<Rightarrow> path \<Rightarrow> path list" where
  "descendants doc scope =
     (case node_at doc scope of
        None \<Rightarrow> []
      | Some n \<Rightarrow> map ((@) scope) (tl (element_paths n)))"

section \<open>The selector engine\<close>

text \<open>
  The queries hand selector texts to \<open>querySelectorAll\<close>, \<open>querySelector\<close> and
  \<open>matches\<close>, some of them built by string interpolation, so the engine is modelled from
  the text on. The grammar covers what the queries need: selector lists (\<open>,\<close>), the child
  combinator (\<open>>\<close>), type selectors, \<open>*\<close>, and attribute selectors \<open>[a]\<close>, \<open>[a=v]\<close>,
  \<open>[a~=v]\<close> with a quoted or an identifier value and the case flag \<open>i\<close>. Inside the
  brackets of an attribute selector the grammar is complete up to escapes and the
  operators \<open>^= $= *= |=\<close>: anything else there is a syntax error, as in every engine.
  Other syntax (descendant and sibling combinators, classes, pseudo-classes, escapes)
  is \<open>Outside\<close> this grammar: \<open>css_parse\<close> marks it \<open>NotModelled\<close> and does not call it
  a syntax error.
\<close>

datatype token = Word string | Str string | Sym char | Includes_op | Space | BadString | Escape

datatype lex_state = LTop | LWord string | LStr char string | LTilde

definition name_char :: "char \<Rightarrow> bool" where
  "name_char c =
     (c \<in> set ''abcdefghijklmnopqrstuvwxyzABCDEFGHIJKLMNOPQRSTUVWXYZ0123456789-_''
      \<or> (128::nat) \<le> of_char c)"

definition digit_char :: "char \<Rightarrow> bool" where
  "digit_char c = (c \<in> set ''0123456789'')"

text \<open>A run of name characters is an identifier unless it starts as a number does.\<close>

definition valid_ident :: "string \<Rightarrow> bool" where
  "valid_ident w =
     (case w of
        [] \<Rightarrow> False
      | c # rest \<Rightarrow>
          (if digit_char c then False
           else if c = CHR ''-'' then (case rest of [] \<Rightarrow> False | d # _ \<Rightarrow> \<not> digit_char d)
           else True))"

definition lex_top :: "char \<Rightarrow> token list \<times> lex_state" where
  "lex_top c =
     (if css_space c then ([Space], LTop)
      else if name_char c then ([], LWord [c])
      else if c = CHR 0x22 \<or> c = CHR 0x27 then ([], LStr c [])
      else if c = CHR ''~'' then ([], LTilde)
      else if c = CHR 0x5C then ([Escape], LTop)
      else ([Sym c], LTop))"

fun lex_step :: "lex_state \<Rightarrow> char \<Rightarrow> token list \<times> lex_state" where
  "lex_step LTop c = lex_top c"
| "lex_step (LWord w) c =
     (if name_char c then ([], LWord (w @ [c]))
      else (Word w # fst (lex_top c), snd (lex_top c)))"
| "lex_step (LStr q s) c =
     (if c = q then ([Str s], LTop)
      else if c = CHR 0x5C then ([Escape], LStr q s)
      else if c \<in> set [CHR 0x0A, CHR 0x0C, CHR 0x0D] then ([BadString], LTop)
      else ([], LStr q (s @ [c])))"
| "lex_step LTilde c =
     (if c = CHR ''='' then ([Includes_op], LTop)
      else (Sym (CHR ''~'') # fst (lex_top c), snd (lex_top c)))"

fun lex_finish :: "lex_state \<Rightarrow> token list" where
  "lex_finish LTop = []"
| "lex_finish (LWord w) = [Word w]"
| "lex_finish (LStr q s) = [BadString]"
| "lex_finish LTilde = [Sym (CHR ''~'')]"

fun lex :: "lex_state \<Rightarrow> string \<Rightarrow> token list" where
  "lex st [] = lex_finish st"
| "lex st (c # cs) = fst (lex_step st c) @ lex (snd (lex_step st c)) cs"

datatype attr_test =
    Attr_exists string
  | Attr_equals string string bool
  | Attr_includes string string bool

text \<open>A compound selector: the type selector (\<open>None\<close> for \<open>*\<close> or none) and its attribute
  tests. A complex selector lists its compounds from the subject up through the parents
  that \<open>>\<close> names. A selector is a list of complex selectors.\<close>

type_synonym compound = "string option \<times> attr_test list"
type_synonym complex = "compound list"
type_synonym selector = "complex list"

datatype 'a parsed = Parsed 'a | Invalid | Outside

fun split_on :: "'a \<Rightarrow> 'a list \<Rightarrow> 'a list \<Rightarrow> 'a list list" where
  "split_on sep acc [] = [acc]"
| "split_on sep acc (x # xs) =
     (if x = sep then acc # split_on sep [] xs else split_on sep (acc @ [x]) xs)"

definition strip_space :: "token list \<Rightarrow> token list" where
  "strip_space ts = rev (dropWhile (\<lambda>t. t = Space) (rev (dropWhile (\<lambda>t. t = Space) ts)))"

definition all_parsed :: "'a parsed list \<Rightarrow> 'a list parsed" where
  "all_parsed rs =
     (if Invalid \<in> set rs then Invalid
      else if Outside \<in> set rs then Outside
      else Parsed (concat (map (\<lambda>r. case r of Parsed x \<Rightarrow> [x] | _ \<Rightarrow> []) rs)))"

definition ident_of :: "token \<Rightarrow> string option" where
  "ident_of t = (case t of Word w \<Rightarrow> (if valid_ident w then Some w else None) | _ \<Rightarrow> None)"

definition attr_value_of :: "token \<Rightarrow> string option" where
  "attr_value_of t =
     (case t of
        Word w \<Rightarrow> (if valid_ident w then Some w else None)
      | Str s \<Rightarrow> Some s
      | _ \<Rightarrow> None)"

definition attr_fallback :: "token list \<Rightarrow> attr_test parsed" where
  "attr_fallback ts =
     (if Escape \<in> set ts \<or> (\<exists>c \<in> set ''^$*|''. Sym c \<in> set ts) then Outside else Invalid)"

definition attr_with :: "token list \<Rightarrow> token \<Rightarrow> token \<Rightarrow> token \<Rightarrow> bool \<Rightarrow> attr_test parsed" where
  "attr_with ts n op v ci =
     (case (ident_of n, attr_value_of v) of
        (Some a, Some x) \<Rightarrow>
          (if op = Sym (CHR ''='') then Parsed (Attr_equals (ascii_lower a) x ci)
           else if op = Includes_op then Parsed (Attr_includes (ascii_lower a) x ci)
           else attr_fallback ts)
      | _ \<Rightarrow> attr_fallback ts)"

text \<open>The tokens between \<open>[\<close> and \<open>]\<close>, whitespace dropped.\<close>

definition parse_attr :: "token list \<Rightarrow> attr_test parsed" where
  "parse_attr ts =
     (case ts of
        [n] \<Rightarrow>
          (case ident_of n of Some a \<Rightarrow> Parsed (Attr_exists (ascii_lower a)) | None \<Rightarrow> attr_fallback ts)
      | [n, op, v] \<Rightarrow> attr_with ts n op v False
      | [n, op, v, f] \<Rightarrow>
          (case f of
             Word w \<Rightarrow>
               (if ascii_lower w = ''i'' then attr_with ts n op v True
                else if ascii_lower w = ''s'' then Outside
                else attr_fallback ts)
           | _ \<Rightarrow> attr_fallback ts)
      | _ \<Rightarrow> attr_fallback ts)"

text \<open>The attribute selectors of a compound, after its type selector: \<open>inside\<close> holds the
  tokens read since an open bracket.\<close>

fun parse_attrs :: "token list option \<Rightarrow> token list \<Rightarrow> attr_test parsed list" where
  "parse_attrs None [] = []"
| "parse_attrs (Some acc) [] = [Invalid]"
| "parse_attrs None (t # ts) =
     (if t = Sym (CHR ''['') then parse_attrs (Some []) ts
      else if t = Sym (CHR '']'') \<or> t = BadString \<or> ident_of t \<noteq> None then [Invalid]
      else [Outside])"
| "parse_attrs (Some acc) (t # ts) =
     (if t = Sym (CHR '']'') then parse_attr acc # parse_attrs None ts
      else if t = Sym (CHR ''['') \<or> t = BadString then [Invalid]
      else if t = Space then parse_attrs (Some acc) ts
      else parse_attrs (Some (acc @ [t])) ts)"

definition parse_compound :: "token list \<Rightarrow> compound parsed" where
  "parse_compound ts =
     (case ts of
        [] \<Rightarrow> Invalid
      | t # rest \<Rightarrow>
          (case t of
             Word w \<Rightarrow>
               (if valid_ident w
                then (case all_parsed (parse_attrs None rest) of
                        Parsed as \<Rightarrow> Parsed (Some (ascii_lower w), as)
                      | Invalid \<Rightarrow> Invalid
                      | Outside \<Rightarrow> Outside)
                else Invalid)
           | _ \<Rightarrow>
               (case all_parsed (parse_attrs None (if t = Sym (CHR ''*'') then rest else ts)) of
                  Parsed as \<Rightarrow> Parsed (None, as)
                | Invalid \<Rightarrow> Invalid
                | Outside \<Rightarrow> Outside)))"

definition parse_complex :: "token list \<Rightarrow> complex parsed" where
  "parse_complex ts =
     (case all_parsed (map (\<lambda>part. parse_compound (strip_space part)) (split_on (Sym (CHR ''>'')) [] ts)) of
        Parsed cs \<Rightarrow> Parsed (rev cs)
      | Invalid \<Rightarrow> Invalid
      | Outside \<Rightarrow> Outside)"

definition css_parse :: "string \<Rightarrow> 'e error + selector" where
  "css_parse s =
     (case all_parsed (map parse_complex (split_on (Sym (CHR '','')) [] (lex LTop s))) of
        Parsed sel \<Rightarrow> Inr sel
      | Invalid \<Rightarrow> Inl (SyntaxError s)
      | Outside \<Rightarrow> Inl (NotModelled s))"

definition value_eq :: "bool \<Rightarrow> string \<Rightarrow> string \<Rightarrow> bool" where
  "value_eq ci x v = (if ci then ascii_lower x = ascii_lower v else x = v)"

fun attr_holds :: "node \<Rightarrow> attr_test \<Rightarrow> bool" where
  "attr_holds n (Attr_exists a) = (getAttribute n a \<noteq> None)"
| "attr_holds n (Attr_equals a v ci) =
     (case getAttribute n a of None \<Rightarrow> False | Some x \<Rightarrow> value_eq ci x v)"
| "attr_holds n (Attr_includes a v ci) =
     (case getAttribute n a of
        None \<Rightarrow> False
      | Some x \<Rightarrow> v \<noteq> [] \<and> \<not> list_ex css_space v \<and> list_ex (\<lambda>w. value_eq ci w v) (token_list x))"

definition compound_holds :: "node \<Rightarrow> compound \<Rightarrow> bool" where
  "compound_holds n c =
     (case tagName n of
        None \<Rightarrow> False
      | Some t \<Rightarrow> (case fst c of None \<Rightarrow> True | Some g \<Rightarrow> g = t) \<and> list_all (attr_holds n) (snd c))"

fun complex_holds :: "node \<Rightarrow> path \<Rightarrow> complex \<Rightarrow> bool" where
  "complex_holds doc p [] = True"
| "complex_holds doc p (c # cs) =
     (case node_at doc p of
        None \<Rightarrow> False
      | Some n \<Rightarrow>
          compound_holds n c \<and> (cs = [] \<or> (p \<noteq> [] \<and> complex_holds doc (butlast p) cs)))"

definition selector_holds :: "node \<Rightarrow> path \<Rightarrow> selector \<Rightarrow> bool" where
  "selector_holds doc p sel = list_ex (complex_holds doc p) sel"

text \<open>
  An engine reads a selector text: it raises, or it gives the test of a candidate node
  of a document, seen from a scope node. The DOM methods are written over any engine;
  \<open>css_engine\<close> is the engine of the grammar above.
\<close>

type_synonym 'e engine = "string \<Rightarrow> 'e error + (node \<Rightarrow> path \<Rightarrow> path \<Rightarrow> bool)"

definition css_engine :: "'e engine" where
  "css_engine s =
     (case css_parse s of
        Inl e \<Rightarrow> Inl e
      | Inr sel \<Rightarrow> Inr (\<lambda>doc scope p. selector_holds doc p sel))"

text \<open>\<open>scope.querySelectorAll(s)\<close>: the descendants of \<open>scope\<close> that the selector matches, in
  document order. A selector is matched against the whole document, so a parent named
  by \<open>>\<close> may be the scope itself.\<close>

definition querySelectorAll :: "'e engine \<Rightarrow> node \<Rightarrow> path \<Rightarrow> string \<Rightarrow> 'e error + path list" where
  "querySelectorAll engine doc scope s =
     (case element_at doc scope of
        None \<Rightarrow> Inl TypeError
      | Some n \<Rightarrow>
          thenE (engine s) (\<lambda>holds. Inr (filter (\<lambda>p. holds doc scope p) (descendants doc scope))))"

definition querySelector :: "'e engine \<Rightarrow> node \<Rightarrow> path \<Rightarrow> string \<Rightarrow> 'e error + path option" where
  "querySelector engine doc scope s =
     thenE (querySelectorAll engine doc scope s)
       (\<lambda>ps. Inr (case ps of [] \<Rightarrow> None | p # _ \<Rightarrow> Some p))"

text \<open>\<open>element.matches(s)\<close>: the element is its own scope.\<close>

definition element_matches :: "'e engine \<Rightarrow> node \<Rightarrow> path \<Rightarrow> string \<Rightarrow> 'e error + bool" where
  "element_matches engine doc p s =
     (case element_at doc p of
        None \<Rightarrow> Inl TypeError
      | Some n \<Rightarrow> thenE (engine s) (\<lambda>holds. Inr (holds doc p p)))"

text \<open>\<open>document.querySelector(s)\<close>: the first element of the whole document, its root
  element included, that the selector matches.\<close>

definition document_querySelector :: "'e engine \<Rightarrow> node \<Rightarrow> string \<Rightarrow> 'e error + path option" where
  "document_querySelector engine doc s =
     thenE (engine s)
       (\<lambda>holds. Inr (case filter (\<lambda>p. holds doc [] p) (element_paths doc) of
                       [] \<Rightarrow> None
                     | p # _ \<Rightarrow> Some p))"

section \<open>Normalizer and matcher\<close>

text \<open>
  A pattern (\<open>Matcher\<close>) is a string, a regular expression or a predicate. The regular
  expression is kept as its test on a string; both carry the text that a template literal
  prints for them.
\<close>

datatype matcher =
    MString string
  | MRegExp string "string \<Rightarrow> bool"
  | MFunction string "string \<Rightarrow> node \<Rightarrow> bool"

fun matcher_text :: "matcher \<Rightarrow> string" where
  "matcher_text (MString s) = s"
| "matcher_text (MRegExp src r) = src"
| "matcher_text (MFunction src f) = src"

text \<open>The options object; \<open>None\<close> is a property left \<open>undefined\<close>.\<close>

record matcher_options =
  exact :: "bool option"
  collapseWhitespace :: "bool option"
  trim :: "bool option"
  normalizer :: "(string \<Rightarrow> string) option"

record selector_matcher_options = matcher_options +
  selector :: "string option"

text \<open>
  Modelled from the spec: \<open>getDefaultNormalizer\<close> and \<open>makeNormalizer\<close> of the matches
  module, which is not among the sources. The default trims and collapses runs of
  whitespace unless a flag is \<open>false\<close>; a custom normalizer together with either flag is
  a configuration error, raised when the normalizer is built.
\<close>

definition getDefaultNormalizer :: "bool option \<Rightarrow> bool option \<Rightarrow> string \<Rightarrow> string" where
  "getDefaultNormalizer tr cw text =
     (let trimmed = (if tr = Some False then text else js_trim text)
      in if cw = Some False then trimmed else collapse_runs False trimmed)"

definition makeNormalizer ::
  "bool option \<Rightarrow> bool option \<Rightarrow> (string \<Rightarrow> string) option \<Rightarrow> 'e error + (string \<Rightarrow> string)" where
  "makeNormalizer cw tr custom =
     (case custom of
        Some f \<Rightarrow> (if tr \<noteq> None \<or> cw \<noteq> None then Inl ConfigurationError else Inr f)
      | None \<Rightarrow> Inr (getDefaultNormalizer tr cw))"

text \<open>
  Modelled from the spec: \<open>matches\<close> and \<open>fuzzyMatches\<close> of the matches module, which is
  not among the sources. An absent text never matches. A string pattern is compared
  with the normalized text after the same normalization: for equality in exact mode,
  for containment without regard to case in fuzzy mode. A regular expression and a
  predicate see the normalized text in both modes.
\<close>

definition matches :: "string option \<Rightarrow> node \<Rightarrow> matcher \<Rightarrow> (string \<Rightarrow> string) \<Rightarrow> bool" where
  "matches textToMatch node m norm =
     (case textToMatch of
        None \<Rightarrow> False
      | Some t \<Rightarrow>
          (case m of
             MString s \<Rightarrow> norm t = norm s
           | MRegExp src r \<Rightarrow> r (norm t)
           | MFunction src f \<Rightarrow> f (norm t) node))"

definition fuzzyMatches :: "string option \<Rightarrow> node \<Rightarrow> matcher \<Rightarrow> (string \<Rightarrow> string) \<Rightarrow> bool" where
  "fuzzyMatches textToMatch node m norm =
     (case textToMatch of
        None \<Rightarrow> False
      | Some t \<Rightarrow>
          (case m of
             MString s \<Rightarrow> includes_str (toLowerCase (norm t)) (toLowerCase (norm s))
           | MRegExp src r \<Rightarrow> r (norm t)
           | MFunction src f \<Rightarrow> f (norm t) node))"

text \<open>\<open>exact ? matches : fuzzyMatches\<close>, where \<open>exact\<close> defaults to \<open>true\<close>.\<close>

definition matcher_for ::
  "bool option \<Rightarrow> string option \<Rightarrow> node \<Rightarrow> matcher \<Rightarrow> (string \<Rightarrow> string) \<Rightarrow> bool" where
  "matcher_for ex = (if ex = Some False then fuzzyMatches else matches)"

section \<open>Reading the document through references\<close>

text \<open>The node behind a reference. Every reference that a query produces resolves; a
  path outside the tree reads as an empty text node.\<close>

definition node_of :: "node \<Rightarrow> path \<Rightarrow> node" where
  "node_of doc p = (case node_at doc p of Some n \<Rightarrow> n | None \<Rightarrow> Text [])"

text \<open>
  Modelled from the spec: \<open>getNodeText\<close> of the shared utilities, which is not among the
  sources: the own text of a node, that is the text of its text children.
\<close>

definition getNodeText :: "node \<Rightarrow> string" where
  "getNodeText n = concat (map (\<lambda>k. case k of Text s \<Rightarrow> s | _ \<Rightarrow> []) (childNodes n))"

text \<open>
  Modelled from the spec: \<open>checkContainerType\<close> of the helpers module, which is not among
  the sources: the container must be a node that can be searched.
\<close>

definition checkContainerType :: "node \<Rightarrow> path \<Rightarrow> 'e error + unit" where
  "checkContainerType doc container =
     (case element_at doc container of None \<Rightarrow> Inl ContainerError | Some n \<Rightarrow> Inr ())"

text \<open>
  Modelled from the spec: \<open>queryAllByAttribute\<close> of the query helpers, which is not among
  the sources: every node under the container that carries the attribute with a
  matching value, under the normalization that its own options give.
\<close>

definition queryAllByAttribute ::
  "'e engine \<Rightarrow> string \<Rightarrow> node \<Rightarrow> path \<Rightarrow> matcher \<Rightarrow> 'a matcher_options_scheme
     \<Rightarrow> 'e error + path list" where
  "queryAllByAttribute engine attribute doc container text opts =
     thenE (makeNormalizer (collapseWhitespace opts) (trim opts) (normalizer opts)) (\<lambda>matchNormalizer.
     thenE (querySelectorAll engine doc container (''['' @ attribute @ '']'')) (\<lambda>nodes.
       Inr (filter (\<lambda>p. matcher_for (exact opts) (getAttribute (node_of doc p) attribute)
                          (node_of doc p) text matchNormalizer) nodes)))"

text \<open>
  Modelled from the spec: \<open>queryAllByText\<close> of the text query module, which is not among
  the sources: every node under the container whose own text matches.
\<close>

definition queryAllByText ::
  "'e engine \<Rightarrow> node \<Rightarrow> path \<Rightarrow> matcher \<Rightarrow> 'a matcher_options_scheme \<Rightarrow> 'e error + path list" where
  "queryAllByText engine doc container text opts =
     thenE (makeNormalizer (collapseWhitespace opts) (trim opts) (normalizer opts)) (\<lambda>matchNormalizer.
     thenE (querySelectorAll engine doc container ''*'') (\<lambda>nodes.
       Inr (filter (\<lambda>p. matcher_for (exact opts) (Some (getNodeText (node_of doc p)))
                          (node_of doc p) text matchNormalizer) nodes)))"

subsection \<open>Label association of the platform\<close>

text \<open>
  \<open>label.control\<close> and \<open>element.labels\<close> as HTML defines them. A label with a \<open>for\<close>
  attribute labels the first element of the document with that id, when that element is
  labelable; a label without one labels its first labelable descendant. \<open>labels\<close> is
  defined on labelable elements only.
\<close>

definition labelable :: "node \<Rightarrow> bool" where
  "labelable n =
     (case tagName n of
        None \<Rightarrow> False
      | Some t \<Rightarrow>
          t \<in> set [''button'', ''input'', ''meter'', ''output'', ''progress'', ''select'', ''textarea'']
          \<and> \<not> (t = ''input'' \<and> map_option ascii_lower (getAttribute n ''type'') = Some ''hidden''))"

definition control :: "node \<Rightarrow> path \<Rightarrow> path option" where
  "control doc label =
     (case getAttribute (node_of doc label) ''for'' of
        Some v \<Rightarrow>
          (case find (\<lambda>p. v \<noteq> [] \<and> getAttribute (node_of doc p) ''id'' = Some v) (element_paths doc) of
             Some p \<Rightarrow> (if labelable (node_of doc p) then Some p else None)
           | None \<Rightarrow> None)
      | None \<Rightarrow> find (\<lambda>p. labelable (node_of doc p)) (descendants doc label))"

definition labels :: "node \<Rightarrow> path \<Rightarrow> path list option" where
  "labels doc element =
     (if labelable (node_of doc element)
      then Some (filter (\<lambda>l. tagName (node_of doc l) = Some ''label'' \<and> control doc l = Some element)
                   (element_paths doc))
      else None)"

section \<open>Queries by title\<close>

definition queryAllByTitle ::
  "'e engine \<Rightarrow> node \<Rightarrow> path \<Rightarrow> matcher \<Rightarrow> 'a matcher_options_scheme \<Rightarrow> 'e error + path list" where
  "queryAllByTitle engine doc container text opts =
     thenE (makeNormalizer (collapseWhitespace opts) (trim opts) (normalizer opts)) (\<lambda>matchNormalizer.
     thenE (querySelectorAll engine doc container ''[title], svg > title'') (\<lambda>nodes.
       Inr (filter (\<lambda>node.
                matcher_for (exact opts) (getAttribute (node_of doc node) ''title'')
                  (node_of doc node) text matchNormalizer
                \<or> matcher_for (exact opts) (Some (getNodeText (node_of doc node)))
                  (node_of doc node) text matchNormalizer) nodes)))"

section \<open>Queries by label text\<close>

text \<open>The text of a label that is matched: its \<open>textContent\<close>, then for every
  \<open>textarea\<close> under the label the first occurrence of its value removed, then for every
  \<open>select\<close> under the label the first occurrence of its text content removed.
  \<open>replace\<close> makes a string of a pattern that is not one.\<close>

definition textToMatch_of :: "'e engine \<Rightarrow> node \<Rightarrow> path \<Rightarrow> 'e error + string" where
  "textToMatch_of engine doc label =
     thenE (querySelectorAll engine doc label ''textarea'') (\<lambda>textareas.
     thenE (querySelectorAll engine doc label ''select'') (\<lambda>selects.
       Inr (foldl (\<lambda>textToMatch select. replace_first textToMatch (textContent (node_of doc select)))
              (foldl (\<lambda>textToMatch textarea.
                        replace_first textToMatch (to_string (value_prop (node_of doc textarea))))
                 (textContent (node_of doc label)) textareas)
              selects)))"

definition queryAllLabelsByText ::
  "'e engine \<Rightarrow> node \<Rightarrow> path \<Rightarrow> matcher \<Rightarrow> 'a matcher_options_scheme \<Rightarrow> 'e error + path list" where
  "queryAllLabelsByText engine doc container text opts =
     thenE (makeNormalizer (collapseWhitespace opts) (trim opts) (normalizer opts)) (\<lambda>matchNormalizer.
     thenE (querySelectorAll engine doc container ''label'') (\<lambda>candidates.
       filterE (\<lambda>label.
           thenE (textToMatch_of engine doc label) (\<lambda>textToMatch.
             Inr (matcher_for (exact opts) (Some textToMatch) (node_of doc label) text matchNormalizer)))
         candidates))"

text \<open>The template literals that build a selector around an attribute value.\<close>

definition id_selector :: "string \<Rightarrow> string" where
  \<open>id_selector v = ''[id="'' @ v @ ''"]''\<close>

definition labelledby_selector :: "string \<Rightarrow> string" where
  \<open>labelledby_selector labelId = ''[aria-labelledby~="'' @ labelId @ ''"]''\<close>

definition unquoted_id_selector :: "string \<Rightarrow> string" where
  \<open>unquoted_id_selector v = ''[id='' @ v @ '']''\<close>

definition formControlSelector :: string where
  "formControlSelector = ''button, input, meter, output, progress, select, textarea''"

text \<open>
  The callback of the \<open>reduce\<close> over the matching labels pushes to \<open>elementsForLabel\<close> in
  four \<open>if\<close> blocks, one for each way a label names its element. Each block is a
  function here and gives what it pushes; a reference is \<open>None\<close> where \<open>querySelector\<close>
  gave \<open>null\<close>.
\<close>

text \<open>\<open>if (label.control)\<close>\<close>

definition pushed_control :: "node \<Rightarrow> path \<Rightarrow> path option list" where
  "pushed_control doc label = (case control doc label of Some c \<Rightarrow> [Some c] | None \<Rightarrow> [])"

text \<open>\<open>if (label.getAttribute('for'))\<close>\<close>

definition pushed_for :: "'e engine \<Rightarrow> node \<Rightarrow> path \<Rightarrow> path \<Rightarrow> 'e error + path option list" where
  "pushed_for engine doc container label =
     (case getAttribute (node_of doc label) ''for'' of
        None \<Rightarrow> Inr []
      | Some v \<Rightarrow>
          (if v = [] then Inr []
           else thenE (querySelector engine doc container (id_selector v)) (\<lambda>r. Inr [r])))"

text \<open>\<open>if (label.getAttribute('id'))\<close>\<close>

definition pushed_labelledby :: "'e engine \<Rightarrow> node \<Rightarrow> path \<Rightarrow> path \<Rightarrow> 'e error + path option list" where
  "pushed_labelledby engine doc container label =
     (case getAttribute (node_of doc label) ''id'' of
        None \<Rightarrow> Inr []
      | Some i \<Rightarrow>
          (if i = [] then Inr []
           else thenE (querySelectorAll engine doc container (labelledby_selector i))
                  (\<lambda>ps. Inr (map Some ps))))"

text \<open>\<open>if (label.childNodes.length)\<close>\<close>

definition pushed_nested :: "'e engine \<Rightarrow> node \<Rightarrow> string \<Rightarrow> path \<Rightarrow> 'e error + path option list" where
  "pushed_nested engine doc sel label =
     (if childNodes (node_of doc label) = [] then Inr []
      else thenE (querySelectorAll engine doc label formControlSelector) (\<lambda>controls.
           thenE (filterE (\<lambda>element. element_matches engine doc element sel) controls) (\<lambda>matching.
             Inr (case matching of
                    [] \<Rightarrow> []
                  | labelledFormControl # _ \<Rightarrow> [Some labelledFormControl]))))"

definition elementsForLabel ::
  "'e engine \<Rightarrow> node \<Rightarrow> path \<Rightarrow> string \<Rightarrow> path \<Rightarrow> 'e error + path option list" where
  "elementsForLabel engine doc container sel label =
     thenE (pushed_for engine doc container label) (\<lambda>by_for.
     thenE (pushed_labelledby engine doc container label) (\<lambda>by_id.
     thenE (pushed_nested engine doc sel label) (\<lambda>nested.
       Inr (pushed_control doc label @ by_for @ by_id @ nested))))"

text \<open>The callback of the \<open>reduce\<close> over the nodes whose own text matches.\<close>

definition labelledNodes_of :: "'e engine \<Rightarrow> node \<Rightarrow> path \<Rightarrow> path \<Rightarrow> 'e error + path list" where
  "labelledNodes_of engine doc container nextLabelElement =
     (case getAttribute (node_of doc nextLabelElement) ''id'' of
        None \<Rightarrow> Inr []
      | Some labelId \<Rightarrow>
          (if labelId = [] then Inr []
           else querySelectorAll engine doc container (labelledby_selector labelId)))"

text \<open>
  \<open>queryAllByLabelText\<close>. The selector of the options is \<open>*\<close> when the caller gives none.
  The label lookup and the text lookup receive \<open>{exact, normalizer: matchNormalizer}\<close>, the
  \<open>aria-label\<close> lookup receives \<open>{exact}\<close>. The references are \<open>path option\<close> up to the
  end: \<open>null\<close> entries are filtered out of the label part, and \<open>matches\<close> on a \<open>null\<close>
  entry would be a type error.
\<close>

definition queryAllByLabelText ::
  "'e engine \<Rightarrow> node \<Rightarrow> path \<Rightarrow> matcher \<Rightarrow> 'a selector_matcher_options_scheme
     \<Rightarrow> 'e error + path option list" where
  "queryAllByLabelText engine doc container text opts =
     thenE (checkContainerType doc container) (\<lambda>_.
     thenE (makeNormalizer (collapseWhitespace opts) (trim opts) (normalizer opts)) (\<lambda>matchNormalizer.
     thenE (queryAllLabelsByText engine doc container text
              \<lparr>exact = exact opts, collapseWhitespace = None, trim = None,
               normalizer = Some matchNormalizer\<rparr>) (\<lambda>labels'.
     thenE (mapE (elementsForLabel engine doc container
                    (case selector opts of None \<Rightarrow> ''*'' | Some s \<Rightarrow> s)) labels') (\<lambda>matchedElements.
     thenE (queryAllByAttribute engine ''aria-label'' doc container text
              \<lparr>exact = exact opts, collapseWhitespace = None, trim = None, normalizer = None\<rparr>)
       (\<lambda>by_aria_label.
     thenE (queryAllByText engine doc container text
              \<lparr>exact = exact opts, collapseWhitespace = None, trim = None,
               normalizer = Some matchNormalizer\<rparr>) (\<lambda>possibleAriaLabelElements.
     thenE (mapE (labelledNodes_of engine doc container) possibleAriaLabelElements)
       (\<lambda>allLabelledElements.
       filterE (\<lambda>element.
           case element of
             None \<Rightarrow> Inl TypeError
           | Some p \<Rightarrow> element_matches engine doc p (case selector opts of None \<Rightarrow> ''*'' | Some s \<Rightarrow> s))
         (from_Set []
            ((filter (\<lambda>element. element \<noteq> None) (concat matchedElements) @ map Some by_aria_label)
             @ map Some (concat allLabelledElements))))))))))"

text \<open>\<open>getElementError\<close> is the error reporter of the configuration: it builds the value
  that is thrown from a message and the container.\<close>

definition getAllByLabelText ::
  "'e engine \<Rightarrow> (string \<Rightarrow> path \<Rightarrow> 'e) \<Rightarrow> node \<Rightarrow> path \<Rightarrow> matcher
     \<Rightarrow> 'a selector_matcher_options_scheme \<Rightarrow> 'e error + path option list" where
  \<open>getAllByLabelText engine getElementError doc container text opts =
     thenE (queryAllByLabelText engine doc container text opts) (\<lambda>els.
       if els = []
       then thenE (queryAllLabelsByText engine doc container text opts) (\<lambda>labels'.
              if labels' \<noteq> []
              then Inl (Reported (getElementError
                     (''Found a label with the text of: '' @ matcher_text text @
                      '', however no form control was found associated to that label. Make sure you're using the "for" attribute or "aria-labelledby" attribute correctly.'')
                     container))
              else Inl (Reported (getElementError
                     (''Unable to find a label with the text of: '' @ matcher_text text)
                     container)))
       else Inr els)\<close>

section \<open>Suggestions\<close>

text \<open>The object that \<open>makeSuggestion\<close> returns: its \<open>queryName\<close>, and what its \<open>toString\<close>
  closure has captured.\<close>

record suggestion =
  queryName :: string
  captured_content :: string
  captured_variant :: string
  captured_name :: "string option"

definition makeSuggestion :: "string \<Rightarrow> string \<Rightarrow> string \<Rightarrow> string option \<Rightarrow> suggestion" where
  "makeSuggestion q c v n =
     \<lparr>queryName = q, captured_content = c, captured_variant = v, captured_name = n\<rparr>"

definition suggestion_toString :: "suggestion \<Rightarrow> string" where
  \<open>suggestion_toString s =
     (let options =
            (case captured_name s of
               None \<Rightarrow> []
             | Some n \<Rightarrow> (if n = [] then [] else '', {name: /'' @ toLowerCase n @ ''/i}''))
      in captured_variant s @ ''By'' @ queryName s @ ''("'' @ captured_content s @ ''"'' @ options @ '')'')\<close>

definition normalize :: "string \<Rightarrow> string" where
  "normalize = getDefaultNormalizer None None"

text \<open>\<open>element.labels && Array.from(element.labels).find(el => Boolean(normalize(el.textContent)))\<close>\<close>

definition native_label :: "node \<Rightarrow> path \<Rightarrow> path option" where
  "native_label doc element =
     (case labels doc element of
        None \<Rightarrow> None
      | Some ls \<Rightarrow> find (\<lambda>el. normalize (textContent (node_of doc el)) \<noteq> []) ls)"

definition getLabelTextFor :: "'e engine \<Rightarrow> node \<Rightarrow> path \<Rightarrow> 'e error + string option" where
  "getLabelTextFor engine doc element =
     thenE (case native_label doc element of
              Some label \<Rightarrow> Inr (Some label)
            | None \<Rightarrow>
                (case getAttribute (node_of doc element) ''aria-labelledby'' of
                   None \<Rightarrow> Inr None
                 | Some ariaLabelledBy \<Rightarrow>
                     (if ariaLabelledBy = [] then Inr None
                      else document_querySelector engine doc (unquoted_id_selector ariaLabelledBy)))) (\<lambda>label.
       Inr (case label of Some l \<Rightarrow> Some (textContent (node_of doc l)) | None \<Rightarrow> None))"

text \<open>\<open>getRoles\<close> gives the role names of the element, in the order of the keys of the object
  that the role helpers build; \<open>computeAccessibleName\<close> is the accessible name of the
  platform library. Both are collaborators outside this code and stay parameters.\<close>

definition truthy :: "string option \<Rightarrow> bool" where
  "truthy s = (case s of None \<Rightarrow> False | Some t \<Rightarrow> t \<noteq> [])"

text \<open>\<open>normalize(element.value)\<close>: the normalizer calls the string methods \<open>trim\<close> and
  \<open>replace\<close> on its argument, which a number does not have.\<close>

definition normalize_value :: "js_value \<Rightarrow> 'e error + string" where
  "normalize_value v =
     (case v of
        JString s \<Rightarrow> Inr (normalize s)
      | JNumber t \<Rightarrow> Inl TypeError
      | Undefined \<Rightarrow> Inl TypeError)"

definition getSuggestedQuery ::
  "'e engine \<Rightarrow> (node \<Rightarrow> path \<Rightarrow> string list) \<Rightarrow> (node \<Rightarrow> path \<Rightarrow> string) \<Rightarrow> node \<Rightarrow> path \<Rightarrow> string
     \<Rightarrow> 'e error + suggestion option" where
  "getSuggestedQuery engine getRoles computeAccessibleName doc element variant =
     (case getRoles doc element of
        role # _ \<Rightarrow>
          Inr (Some (makeSuggestion ''Role'' role variant (Some (computeAccessibleName doc element))))
      | [] \<Rightarrow>
          thenE (getLabelTextFor engine doc element) (\<lambda>labelText.
            if truthy labelText
            then Inr (Some (makeSuggestion ''LabelText'' (case labelText of Some t \<Rightarrow> t | None \<Rightarrow> []) variant None))
            else let placeholderText = getAttribute (node_of doc element) ''placeholder'' in
            if truthy placeholderText
            then Inr (Some (makeSuggestion ''PlaceholderText''
                       (case placeholderText of Some t \<Rightarrow> t | None \<Rightarrow> []) variant None))
            else let textContent' = normalize (textContent (node_of doc element)) in
            if textContent' \<noteq> []
            then Inr (Some (makeSuggestion ''Text'' textContent' variant None))
            else if truthy_value (value_prop (node_of doc element))
            then thenE (normalize_value (value_prop (node_of doc element))) (\<lambda>displayValue.
                   Inr (Some (makeSuggestion ''DisplayValue'' displayValue variant None)))
            else let alt = getAttribute (node_of doc element) ''alt'' in
            if truthy alt
            then Inr (Some (makeSuggestion ''AltText'' (case alt of Some t \<Rightarrow> t | None \<Rightarrow> []) variant None))
            else let title = getAttribute (node_of doc element) ''title'' in
            if truthy title
            then Inr (Some (makeSuggestion ''Title'' (case title of Some t \<Rightarrow> t | None \<Rightarrow> []) variant None))
            else Inr None))"

section \<open>Notions used in the statements\<close>

text \<open>A value that the quoted template literals carry unchanged into the selector: no
  double quote, no backslash and no line break.\<close>

definition quote_free :: "string \<Rightarrow> bool" where
  "quote_free v = list_all (\<lambda>c. c \<notin> set [CHR 0x22, CHR 0x5C, CHR 0x0A, CHR 0x0C, CHR 0x0D]) v"

text \<open>The node lists the id among the whitespace-separated tokens of its
  \<open>aria-labelledby\<close> attribute.\<close>

definition has_token :: "node \<Rightarrow> path \<Rightarrow> string \<Rightarrow> bool" where
  "has_token doc p i =
     (case getAttribute (node_of doc p) ''aria-labelledby'' of
        None \<Rightarrow> False
      | Some x \<Rightarrow> i \<in> set (token_list x))"


text \<open>A token list read by the lexer: only words and whitespace.\<close>

definition soft :: "token list \<Rightarrow> bool" where
  "soft ts = list_all (\<lambda>t. t = Space \<or> (case t of Word w \<Rightarrow> True | _ \<Rightarrow> False)) ts"

text \<open>An attribute value made of name characters and whitespace, as a list of plain ids is.\<close>

definition id_chars :: "string \<Rightarrow> bool" where
  "id_chars a = list_all (\<lambda>c. name_char c \<or> css_space c) a"

text \<open>The value lists several ids, and is not an id followed by the one word that an
  attribute selector accepts after its value, a case flag.\<close>

definition several_ids :: "string \<Rightarrow> bool" where
  "several_ids a =
     (id_chars a \<and>
      (3 \<le> length (token_list a)
       \<or> (length (token_list a) = 2
           \<and> ascii_lower (token_list a ! 1) \<noteq> ''i'' \<and> ascii_lower (token_list a ! 1) \<noteq> ''s'')))"

text \<open>An id that is a CSS identifier made of name characters.\<close>

definition plain_id :: "string \<Rightarrow> bool" where
  "plain_id a = (list_all name_char a \<and> valid_ident a)"

subsection \<open>The priority order, as the specification words it\<close>

text \<open>The seven candidates in the order of the specification, each with the condition
  under which it applies, given the label text that was resolved; and the choice of the
  first candidate that applies. The value is a candidate when it is a string that is
  not empty.\<close>

fun first_applicable :: "'a option list \<Rightarrow> 'a option" where
  "first_applicable [] = None"
| "first_applicable (Some x # cs) = Some x"
| "first_applicable (None # cs) = first_applicable cs"

definition suggestion_candidates ::
  "(node \<Rightarrow> path \<Rightarrow> string list) \<Rightarrow> (node \<Rightarrow> path \<Rightarrow> string) \<Rightarrow> node \<Rightarrow> path \<Rightarrow> string
     \<Rightarrow> string option \<Rightarrow> suggestion option list" where
  "suggestion_candidates getRoles computeAccessibleName doc element variant labelText =
     [case getRoles doc element of
        [] \<Rightarrow> None
      | role # _ \<Rightarrow> Some (makeSuggestion ''Role'' role variant (Some (computeAccessibleName doc element))),
      case labelText of
        None \<Rightarrow> None
      | Some t \<Rightarrow> (if t = [] then None else Some (makeSuggestion ''LabelText'' t variant None)),
      case getAttribute (node_of doc element) ''placeholder'' of
        None \<Rightarrow> None
      | Some t \<Rightarrow> (if t = [] then None else Some (makeSuggestion ''PlaceholderText'' t variant None)),
      if normalize (textContent (node_of doc element)) = [] then None
      else Some (makeSuggestion ''Text'' (normalize (textContent (node_of doc element))) variant None),
      case value_prop (node_of doc element) of
        JString t \<Rightarrow> (if t = [] then None else Some (makeSuggestion ''DisplayValue'' (normalize t) variant None))
      | _ \<Rightarrow> None,
      case getAttribute (node_of doc element) ''alt'' of
        None \<Rightarrow> None
      | Some t \<Rightarrow> (if t = [] then None else Some (makeSuggestion ''AltText'' t variant None)),
      case getAttribute (node_of doc element) ''title'' of
        None \<Rightarrow> None
      | Some t \<Rightarrow> (if t = [] then None else Some (makeSuggestion ''Title'' t variant None))]"

section \<open>Documents and options of the examples\<close>

text \<open>The \<open>value\<close> of a text field without a \<open>value\<close> attribute is the empty string, that
  of a \<open>textarea\<close> is its text; the other elements of the examples have no \<open>value\<close>
  property.\<close>

definition no_options :: selector_matcher_options where
  "no_options =
     \<lparr>exact = None, collapseWhitespace = None, trim = None, normalizer = None, selector = None\<rparr>"

definition exact_options :: selector_matcher_options where
  "exact_options =
     \<lparr>exact = Some True, collapseWhitespace = None, trim = None, normalizer = None, selector = None\<rparr>"

text \<open>The options \<^verbatim>\<open>{selector: 'input'}\<close>.\<close>

definition input_options :: selector_matcher_options where
  "input_options =
     \<lparr>exact = None, collapseWhitespace = None, trim = None, normalizer = None,
      selector = Some ''input''\<rparr>"

text \<open>\<^verbatim>\<open><div><svg><title>Close</title></svg></div>\<close>\<close>

definition svg_document :: node where
  "svg_document =
     Element ''div'' [] Undefined
       [Element ''svg'' [] Undefined [Element ''title'' [] Undefined [Text ''Close'']]]"

text \<open>\<^verbatim>\<open><div><span title="Hi"></span><p title="Hi"></p></div>\<close>\<close>

definition two_titles_document :: node where
  "two_titles_document =
     Element ''div'' [] Undefined
       [Element ''span'' [(''title'', ''Hi'')] Undefined [],
        Element ''p'' [(''title'', ''Hi'')] Undefined []]"

text \<open>\<^verbatim>\<open><div><input aria-label="Name"><label for="b">Name</label><input id="b"></div>\<close>\<close>

definition mixed_order_document :: node where
  "mixed_order_document =
     Element ''div'' [] Undefined
       [Element ''input'' [(''aria-label'', ''Name'')] (JString []) [],
        Element ''label'' [(''for'', ''b'')] Undefined [Text ''Name''],
        Element ''input'' [(''id'', ''b'')] (JString []) []]"

text \<open>A label that names its input in the four ways, a label whose \<open>for\<close> names no
  element, a paragraph labelled through the id of the first label, and a \<open>textarea\<close>
  with an \<open>aria-label\<close>:
  \<^verbatim>\<open><div><label id="l" for="x">Name<input id="x" aria-labelledby="l"></label>\<close>
  \<^verbatim>\<open><label for="missing">Name</label><p aria-labelledby="l"></p>\<close>
  \<^verbatim>\<open><textarea aria-label="Name"></textarea></div>\<close>\<close>

definition many_ways_document :: node where
  "many_ways_document =
     Element ''div'' [] Undefined
       [Element ''label'' [(''id'', ''l''), (''for'', ''x'')] Undefined
          [Text ''Name'',
           Element ''input'' [(''id'', ''x''), (''aria-labelledby'', ''l'')] (JString []) []],
        Element ''label'' [(''for'', ''missing'')] Undefined [Text ''Name''],
        Element ''p'' [(''aria-labelledby'', ''l'')] Undefined [],
        Element ''textarea'' [(''aria-label'', ''Name'')] (JString []) []]"


text \<open>A label and a span with the same text; three inputs whose \<open>aria-labelledby\<close> is
  \<open>a b\<close>, \<open>a\<close> and \<open>ab\<close>.\<close>

definition many_to_many_document :: node where
  "many_to_many_document =
     Element ''div'' [] Undefined
       [Element ''label'' [(''id'', ''a'')] Undefined [Text ''Name''],
        Element ''span'' [(''id'', ''b'')] Undefined [Text ''Name''],
        Element ''input'' [(''aria-labelledby'', ''a b'')] (JString []) [],
        Element ''input'' [(''aria-labelledby'', ''a'')] (JString []) [],
        Element ''input'' [(''aria-labelledby'', ''ab'')] (JString []) []]"


text \<open>Two labels for one input, the first of whitespace only; a span with an id and
  nodes that name it in \<open>aria-labelledby\<close>, alone and in a list of two ids.\<close>

definition label_lookup_document :: node where
  "label_lookup_document =
     Element ''div'' [] Undefined
       [Element ''label'' [(''for'', ''x'')] Undefined [Text ''   ''],
        Element ''label'' [(''for'', ''x'')] Undefined [Text ''Email''],
        Element ''input'' [(''id'', ''x''), (''aria-labelledby'', ''note'')] (JString []) [],
        Element ''span'' [(''id'', ''note'')] Undefined [Text ''Note''],
        Element ''p'' [(''aria-labelledby'', ''note'')] Undefined [],
        Element ''span'' [(''id'', ''hint'')] Undefined [Text ''Hint''],
        Element ''p'' [(''aria-labelledby'', ''note hint'')] Undefined []]"

text \<open>A node labelled through an id with a dot:
  \<^verbatim>\<open><div><span id="email.label">Email</span><p aria-labelledby="email.label"></p></div>\<close>\<close>

definition email_label_document :: node where
  "email_label_document =
     Element ''div'' [] Undefined
       [Element ''span'' [(''id'', ''email.label'')] Undefined [Text ''Email''],
        Element ''p'' [(''aria-labelledby'', ''email.label'')] Undefined []]"

text \<open>An \<open>aria-labelledby\<close> that lists the ids \<open>a\<close> and \<open>i\<close>:
  \<^verbatim>\<open><div><span id="a">First</span><span id="i">Second</span><p aria-labelledby="a i"></p></div>\<close>\<close>

definition case_flag_document :: node where
  "case_flag_document =
     Element ''div'' [] Undefined
       [Element ''span'' [(''id'', ''a'')] Undefined [Text ''First''],
        Element ''span'' [(''id'', ''i'')] Undefined [Text ''Second''],
        Element ''p'' [(''aria-labelledby'', ''a i'')] Undefined []]"

text \<open>\<^verbatim>\<open><div><label>Notes<textarea>No</textarea></label></div>\<close>\<close>

definition own_text_lost_document :: node where
  "own_text_lost_document =
     Element ''div'' [] Undefined
       [Element ''label'' [] Undefined
          [Text ''Notes'', Element ''textarea'' [] (JString ''No'') [Text ''No'']]]"

text \<open>A custom normalizer that drops every hyphen, the options that carry it, and a
  document with the same text in a label and in an \<open>aria-label\<close>.\<close>

definition dashless :: "string \<Rightarrow> string" where
  "dashless s = filter (\<lambda>c. c \<noteq> CHR ''-'') s"

definition dashless_options :: selector_matcher_options where
  "dashless_options =
     \<lparr>exact = None, collapseWhitespace = None, trim = None, normalizer = Some dashless, selector = None\<rparr>"

definition normalizer_document :: node where
  "normalizer_document =
     Element ''div'' [] Undefined
       [Element ''label'' [(''for'', ''x'')] Undefined [Text ''N-a-m-e''],
        Element ''input'' [(''id'', ''x'')] (JString []) [],
        Element ''input'' [(''aria-label'', ''N-a-m-e'')] (JString []) []]"

text \<open>A paragraph labelled through an id with a dot, and a paragraph with a title that
  lists two ids; neither has a role:
  \<^verbatim>\<open><div><span id="user.name">User name</span><p aria-labelledby="user.name"></p></div>\<close>
  and \<^verbatim>\<open><div><p title="Tooltip" aria-labelledby="title hint"></p></div>\<close>\<close>

definition dotted_id_document :: node where
  "dotted_id_document =
     Element ''div'' [] Undefined
       [Element ''span'' [(''id'', ''user.name'')] Undefined [Text ''User name''],
        Element ''p'' [(''aria-labelledby'', ''user.name'')] Undefined []]"

definition titled_document :: node where
  "titled_document =
     Element ''div'' [] Undefined
       [Element ''p'' [(''title'', ''Tooltip''), (''aria-labelledby'', ''title hint'')] Undefined []]"

definition no_roles :: "node \<Rightarrow> path \<Rightarrow> string list" where
  "no_roles doc element = []"

definition no_name :: "node \<Rightarrow> path \<Rightarrow> string" where
  "no_name doc element = []"

section \<open>Lemmas on the combinators\<close>

lemma thenE_Inr_iff: "thenE r f = Inr y \<longleftrightarrow> (\<exists>v. r = Inr v \<and> f v = Inr y)"
  by (cases r) (simp_all add: thenE_def)

lemma thenE_simps: "thenE (Inr v) f = f v" "thenE (Inl e) f = Inl e"
  by (simp_all add: thenE_def)

lemma filterE_Inr:
  "filterE f xs = Inr ys \<Longrightarrow> ys = filter (\<lambda>x. f x = Inr True) xs"
proof (induction xs arbitrary: ys)
  case Nil
  then show ?case by simp
next
  case (Cons x xs)
  then show ?case by (auto split: sum.splits if_splits)
qed

lemma filterE_subseq: "filterE f xs = Inr ys \<Longrightarrow> subseq ys xs"
  by (drule filterE_Inr) simp

lemma mapE_member:
  "mapE f xs = Inr ys \<Longrightarrow> x \<in> set xs \<Longrightarrow> \<exists>y \<in> set ys. f x = Inr y"
  by (induction xs arbitrary: ys) (auto split: sum.splits)

lemma mapE_map: "mapE f xs = Inr ys \<Longrightarrow> map f xs = map Inr ys"
  by (induction xs arbitrary: ys) (auto split: sum.splits)

lemma map_Inr_zip:
  "map f xs = map Inr ys \<Longrightarrow> (x, y) \<in> set (zip xs ys) \<Longrightarrow> f x = Inr y"
proof (induction xs arbitrary: ys)
  case Nil
  then show ?case by simp
next
  case (Cons a xs)
  then show ?case by (cases ys) auto
qed

lemma map_Inr_member:
  "map f xs = map Inr ys \<Longrightarrow> y \<in> set ys \<Longrightarrow> \<exists>x \<in> set xs. f x = Inr y"
proof (induction xs arbitrary: ys)
  case Nil
  then show ?case by simp
next
  case (Cons a xs)
  then show ?case by (cases ys) auto
qed

lemma from_Set_set: "set (from_Set seen xs) = set xs - set seen"
  by (induction seen xs rule: from_Set.induct) auto

lemma from_Set_distinct: "distinct (from_Set seen xs)"
  by (induction seen xs rule: from_Set.induct) (auto simp: from_Set_set)

lemma from_Set_subseq: "subseq (from_Set seen xs) xs"
  by (induction seen xs rule: from_Set.induct) auto

text \<open>\<open>Array.from(new Set(xs))\<close> keeps every value at its first occurrence; \<open>remdups\<close>
  keeps the last one.\<close>

lemma remdups_snoc: "remdups (zs @ [x]) = remdups (filter (\<lambda>z. z \<noteq> x) zs) @ [x]"
  by (induction zs) auto

lemma from_Set_remdups:
  "from_Set seen xs = rev (remdups (rev (filter (\<lambda>x. x \<notin> set seen) xs)))"
proof (induction seen xs rule: from_Set.induct)
  case (1 seen)
  show ?case by simp
next
  case (2 seen x xs)
  show ?case
  proof (cases "x \<in> set seen")
    case True
    with 2 show ?thesis by simp
  next
    case False
    have "filter (\<lambda>z. z \<noteq> x) (rev (filter (\<lambda>y. y \<notin> set seen) xs))
            = rev (filter (\<lambda>y. y \<notin> set (x # seen)) xs)"
      by (auto simp: rev_filter [symmetric] intro: filter_cong)
    with False 2 show ?thesis by (simp add: remdups_snoc)
  qed
qed

lemma from_Set_first_occurrences: "from_Set [] xs = rev (remdups (rev xs))"
  by (simp add: from_Set_remdups)

section \<open>What the lookups of a label query return\<close>

lemma querySelectorAll_subseq:
  "querySelectorAll engine doc scope s = Inr ps \<Longrightarrow> subseq ps (descendants doc scope)"
  by (auto simp: querySelectorAll_def thenE_Inr_iff split: option.splits)

lemma queryAllLabelsByText_normalizer:
  assumes "makeNormalizer (collapseWhitespace opts) (trim opts) (normalizer opts)
             = (Inr norm :: 'e error + (string \<Rightarrow> string))"
  shows "(queryAllLabelsByText engine doc container text
           \<lparr>exact = exact opts, collapseWhitespace = None, trim = None, normalizer = Some norm\<rparr>
            :: 'e error + path list)
         = queryAllLabelsByText engine doc container text opts"
  using assms
  by (auto simp add: queryAllLabelsByText_def makeNormalizer_def thenE_simps
      split: option.splits if_splits)

lemma queryAllByText_normalizer:
  assumes "makeNormalizer (collapseWhitespace opts) (trim opts) (normalizer opts)
             = (Inr norm :: 'e error + (string \<Rightarrow> string))"
  shows "(queryAllByText engine doc container text
           \<lparr>exact = exact opts, collapseWhitespace = None, trim = None, normalizer = Some norm\<rparr>
            :: 'e error + path list)
         = queryAllByText engine doc container text opts"
  using assms
  by (auto simp add: queryAllByText_def makeNormalizer_def thenE_simps
      split: option.splits if_splits)

lemma queryAllLabelsByText_subseq:
  assumes "queryAllLabelsByText engine doc container text opts = (Inr ls :: 'e error + path list)"
  shows "subseq ls (descendants doc container)"
proof -
  from assms obtain ps where
    q: "querySelectorAll engine doc container ''label'' = (Inr ps :: 'e error + path list)"
    and f: "filterE (\<lambda>label.
           thenE (textToMatch_of engine doc label) (\<lambda>textToMatch.
             Inr (matcher_for (exact opts) (Some textToMatch) (node_of doc label) text
                    (case makeNormalizer (collapseWhitespace opts) (trim opts) (normalizer opts)
                            :: 'e error + (string \<Rightarrow> string) of
                       Inr n \<Rightarrow> n | Inl e \<Rightarrow> id)))) ps = (Inr ls :: 'e error + path list)"
    unfolding queryAllLabelsByText_def thenE_Inr_iff by auto
  from filterE_subseq [OF f] querySelectorAll_subseq [OF q] show ?thesis
    by (rule subseq_order.trans)
qed

lemma queryAllByText_subseq:
  assumes "queryAllByText engine doc container text opts = (Inr ts :: 'e error + path list)"
  shows "subseq ts (descendants doc container)"
proof -
  from assms obtain ps P where
    q: "querySelectorAll engine doc container ''*'' = (Inr ps :: 'e error + path list)"
    and ts: "ts = filter P ps"
    unfolding queryAllByText_def thenE_Inr_iff by blast
  have "subseq ts ps" unfolding ts by simp
  from this querySelectorAll_subseq [OF q] show ?thesis by (rule subseq_order.trans)
qed

lemma queryAllByAttribute_subseq:
  assumes "queryAllByAttribute engine a doc container text opts = (Inr ns :: 'e error + path list)"
  shows "subseq ns (descendants doc container)"
proof -
  from assms obtain ps P where
    q: "querySelectorAll engine doc container (''['' @ a @ '']'') = (Inr ps :: 'e error + path list)"
    and ns: "ns = filter P ps"
    unfolding queryAllByAttribute_def thenE_Inr_iff by blast
  have "subseq ns ps" unfolding ns by simp
  from this querySelectorAll_subseq [OF q] show ?thesis by (rule subseq_order.trans)
qed

lemma queryAllByTitle_subseq:
  assumes "queryAllByTitle engine doc container text opts = (Inr ns :: 'e error + path list)"
  shows "subseq ns (descendants doc container)"
proof -
  from assms obtain ps P where
    q: "querySelectorAll engine doc container ''[title], svg > title'' = (Inr ps :: 'e error + path list)"
    and ns: "ns = filter P ps"
    unfolding queryAllByTitle_def thenE_Inr_iff by blast
  have "subseq ns ps" unfolding ns by simp
  from this querySelectorAll_subseq [OF q] show ?thesis by (rule subseq_order.trans)
qed

lemma labelledNodes_of_subseq:
  "labelledNodes_of engine doc container l = Inr g \<Longrightarrow> subseq g (descendants doc container)"
  by (auto simp: labelledNodes_of_def querySelectorAll_subseq split: option.splits if_splits)

text \<open>What the callback collects for one label: the control, then the target of \<open>for\<close> or
  \<open>null\<close>, then the nodes that the lookup through the id of the label gives, in document
  order, then the first nested form control.\<close>

lemma elementsForLabel_parts:
  assumes "elementsForLabel engine doc container sel l = (Inr r :: 'e error + path option list)"
  shows "\<exists>f b n. pushed_for engine doc container l = (Inr f :: 'e error + path option list)
           \<and> pushed_labelledby engine doc container l = (Inr (map Some b) :: 'e error + path option list)
           \<and> pushed_nested engine doc sel l = (Inr n :: 'e error + path option list)
           \<and> r = pushed_control doc l @ f @ map Some b @ n
           \<and> length (pushed_control doc l) \<le> 1 \<and> length f \<le> 1
           \<and> subseq b (descendants doc container) \<and> length n \<le> 1"
proof -
  from assms obtain f b' n where
    f: "pushed_for engine doc container l = (Inr f :: 'e error + path option list)"
    and b': "pushed_labelledby engine doc container l = (Inr b' :: 'e error + path option list)"
    and n: "pushed_nested engine doc sel l = (Inr n :: 'e error + path option list)"
    and r: "r = pushed_control doc l @ f @ b' @ n"
    unfolding elementsForLabel_def thenE_Inr_iff by auto
  from b' obtain b where b: "b' = map Some b" "subseq b (descendants doc container)"
    by (auto simp: pushed_labelledby_def thenE_Inr_iff querySelectorAll_subseq
        split: option.splits if_splits)
  have c: "length (pushed_control doc l) \<le> 1"
    by (simp add: pushed_control_def split: option.splits)
  from f have lf: "length f \<le> 1"
    by (auto simp: pushed_for_def thenE_Inr_iff split: option.splits if_splits)
  have ln: "length n \<le> 1"
  proof (cases "childNodes (node_of doc l) = []")
    case True
    with n show ?thesis by (simp add: pushed_nested_def)
  next
    case False
    with n have "\<exists>m :: path list.
      n = (case m of [] \<Rightarrow> [] | labelledFormControl # _ \<Rightarrow> [Some labelledFormControl])"
      by (auto simp: pushed_nested_def thenE_Inr_iff)
    then obtain m :: "path list" where
      "n = (case m of [] \<Rightarrow> [] | labelledFormControl # _ \<Rightarrow> [Some labelledFormControl])"
      by blast
    then show ?thesis by (cases m) simp_all
  qed
  from f b' n r b c lf ln show ?thesis by blast
qed

text \<open>The steps of \<open>queryAllByLabelText\<close> when it returns: the matching labels, what is
  collected for each, the nodes with a matching \<open>aria-label\<close>, the nodes with matching
  own text, what is collected for each of these, and the result.\<close>

lemma queryAllByLabelText_steps:
  assumes "queryAllByLabelText engine doc container text opts = (Inr els :: 'e error + path option list)"
  shows "\<exists>ls per attrEls ts groups.
           element_at doc container \<noteq> None
           \<and> queryAllLabelsByText engine doc container text opts = (Inr ls :: 'e error + path list)
           \<and> map (elementsForLabel engine doc container
                    (case selector opts of None \<Rightarrow> ''*'' | Some s \<Rightarrow> s)) ls
               = map (Inr :: path option list \<Rightarrow> 'e error + path option list) per
           \<and> queryAllByAttribute engine ''aria-label'' doc container text
                \<lparr>exact = exact opts, collapseWhitespace = None, trim = None, normalizer = None\<rparr>
               = (Inr attrEls :: 'e error + path list)
           \<and> queryAllByText engine doc container text opts = (Inr ts :: 'e error + path list)
           \<and> map (labelledNodes_of engine doc container) ts
               = map (Inr :: path list \<Rightarrow> 'e error + path list) groups
           \<and> els = filter (\<lambda>e. case e of
                                  None \<Rightarrow> False
                                | Some p \<Rightarrow>
                                    element_matches engine doc p
                                      (case selector opts of None \<Rightarrow> ''*'' | Some s \<Rightarrow> s)
                                    = (Inr True :: 'e error + bool))
                     (rev (remdups (rev (filter (\<lambda>e. e \<noteq> None) (concat per)
                                         @ map Some attrEls @ map Some (concat groups)))))"
proof -
  define sel where "sel = (case selector opts of None \<Rightarrow> ''*'' | Some s \<Rightarrow> s)"
  from assms obtain c norm ls per attrEls ts groups where
    c: "checkContainerType doc container = (Inr c :: 'e error + unit)"
    and nm: "makeNormalizer (collapseWhitespace opts) (trim opts) (normalizer opts)
          = (Inr norm :: 'e error + (string \<Rightarrow> string))"
    and ls: "queryAllLabelsByText engine doc container text
              \<lparr>exact = exact opts, collapseWhitespace = None, trim = None, normalizer = Some norm\<rparr>
            = (Inr ls :: 'e error + path list)"
    and per: "mapE (elementsForLabel engine doc container sel) ls
            = (Inr per :: 'e error + path option list list)"
    and at: "queryAllByAttribute engine ''aria-label'' doc container text
                \<lparr>exact = exact opts, collapseWhitespace = None, trim = None, normalizer = None\<rparr>
               = (Inr attrEls :: 'e error + path list)"
    and ts: "queryAllByText engine doc container text
              \<lparr>exact = exact opts, collapseWhitespace = None, trim = None, normalizer = Some norm\<rparr>
            = (Inr ts :: 'e error + path list)"
    and gr: "mapE (labelledNodes_of engine doc container) ts = (Inr groups :: 'e error + path list list)"
    and f: "filterE (\<lambda>element. case element of None \<Rightarrow> (Inl TypeError :: 'e error + bool)
                | Some p \<Rightarrow> element_matches engine doc p sel)
          (from_Set []
            ((filter (\<lambda>element. element \<noteq> None) (concat per) @ map Some attrEls)
             @ map Some (concat groups))) = Inr els"
    unfolding queryAllByLabelText_def thenE_Inr_iff sel_def by blast
  from c have ce: "element_at doc container \<noteq> None"
    by (auto simp: checkContainerType_def split: option.splits)
  have p: "((case x of None \<Rightarrow> (Inl TypeError :: 'e error + bool)
                | Some p \<Rightarrow> element_matches engine doc p sel) = Inr True)
           = (case x of None \<Rightarrow> False
                | Some p \<Rightarrow> element_matches engine doc p sel = (Inr True :: 'e error + bool))" for x
    by (cases x) simp_all
  from filterE_Inr [OF f]
  have els: "els = filter (\<lambda>e. case e of None \<Rightarrow> False
                | Some p \<Rightarrow> element_matches engine doc p sel = (Inr True :: 'e error + bool))
                (rev (remdups (rev (filter (\<lambda>e. e \<noteq> None) (concat per)
                                         @ map Some attrEls @ map Some (concat groups)))))"
    unfolding p from_Set_first_occurrences by simp
  from ls have ls': "queryAllLabelsByText engine doc container text opts = (Inr ls :: 'e error + path list)"
    unfolding queryAllLabelsByText_normalizer [OF nm] .
  from ts have ts': "queryAllByText engine doc container text opts = (Inr ts :: 'e error + path list)"
    unfolding queryAllByText_normalizer [OF nm] .
  from ce ls' mapE_map [OF per] at ts' mapE_map [OF gr] els show ?thesis
    unfolding sel_def by blast
qed

section \<open>The result of a label query: no duplicates, no null, the selector holds\<close>

text \<open>
  Claim C3. Whenever \<open>queryAllByLabelText\<close> returns a sequence, no reference occurs in it
  twice (however many of the mechanisms reach the node), no entry is \<open>null\<close>, and every
  entry is an element that satisfies the selector of the caller, or \<open>*\<close> when the caller
  gives none: \<open>matches\<close> is true of it, that is, the engine accepts the selector and
  its test holds of the element.
\<close>

theorem queryAllByLabelText_distinct_selected:
  assumes "queryAllByLabelText engine doc container text opts = (Inr els :: 'e error + path option list)"
  shows "distinct els \<and> None \<notin> set els \<and>
         (\<forall>e \<in> set els. \<exists>p holds.
            e = Some p \<and> element_at doc p \<noteq> None
            \<and> element_matches engine doc p (case selector opts of None \<Rightarrow> ''*'' | Some s \<Rightarrow> s)
                = (Inr True :: 'e error + bool)
            \<and> engine (case selector opts of None \<Rightarrow> ''*'' | Some s \<Rightarrow> s) = Inr holds
            \<and> holds doc p p)"
proof -
  define sel where "sel = (case selector opts of None \<Rightarrow> ''*'' | Some s \<Rightarrow> s)"
  from queryAllByLabelText_steps [OF assms] obtain collected :: "path option list" where
    els: "els = filter (\<lambda>e. case e of
                                  None \<Rightarrow> False
                                | Some p \<Rightarrow> element_matches engine doc p sel = (Inr True :: 'e error + bool))
                     (rev (remdups (rev collected)))"
    unfolding sel_def by blast
  have "distinct els" unfolding els by simp
  moreover have "None \<notin> set els" unfolding els by simp
  moreover have "\<exists>p holds.
            e = Some p \<and> element_at doc p \<noteq> None
            \<and> element_matches engine doc p sel = (Inr True :: 'e error + bool)
            \<and> engine sel = Inr holds \<and> holds doc p p" if "e \<in> set els" for e
  proof -
    from that have "case e of None \<Rightarrow> False
                | Some p \<Rightarrow> element_matches engine doc p sel = (Inr True :: 'e error + bool)"
      by (simp add: els)
    then obtain p where
      e: "e = Some p" and m: "element_matches engine doc p sel = (Inr True :: 'e error + bool)"
      by (cases e) auto
    from m obtain holds where "element_at doc p \<noteq> None" "engine sel = Inr holds" "holds doc p p"
      by (auto simp: element_matches_def thenE_Inr_iff split: option.splits)
    with e m show ?thesis by blast
  qed
  ultimately show ?thesis unfolding sel_def by blast
qed

text \<open>
  In \<open>many_ways_document\<close> with the selector \<open>input\<close>: the input is the control of the
  first label, the target of its \<open>for\<close>, labelled through its id and nested in it, and it
  is returned once; the \<open>for\<close> of the second label gives \<open>null\<close>, which is dropped; the
  paragraph and the \<open>textarea\<close> are collected, as the call without a selector shows, and
  dropped by the selector.
\<close>

theorem queryAllByLabelText_distinct_selected_witness:
  "queryAllByLabelText css_engine many_ways_document [] (MString ''Name'') input_options
     = (Inr [Some [0, 1]] :: unit error + path option list)
   \<and> map (elementsForLabel css_engine many_ways_document [] ''input'') [[0], [1]]
     = [Inr [Some [0, 1], Some [0, 1], Some [0, 1], Some [2], Some [0, 1]],
        (Inr [None] :: unit error + path option list)]
   \<and> queryAllByLabelText css_engine many_ways_document [] (MString ''Name'') no_options
     = (Inr [Some [0, 1], Some [2], Some [3]] :: unit error + path option list)
   \<and> element_matches css_engine many_ways_document [0, 1] ''input'' = (Inr True :: unit error + bool)
   \<and> element_matches css_engine many_ways_document [2] ''input'' = (Inr False :: unit error + bool)
   \<and> element_matches css_engine many_ways_document [3] ''input'' = (Inr False :: unit error + bool)
   \<and> element_at many_ways_document [0, 1] \<noteq> None"
proof -
  have q: "queryAllByLabelText css_engine many_ways_document [] (MString ''Name'') input_options
     = (Inr [Some [0, 1]] :: unit error + path option list)"
    by code_simp
  have s: "selector input_options = Some ''input''"
    by (simp add: input_options_def)
  have l: "map (elementsForLabel css_engine many_ways_document [] ''input'') [[0], [1]]
     = [Inr [Some [0, 1], Some [0, 1], Some [0, 1], Some [2], Some [0, 1]],
        (Inr [None] :: unit error + path option list)]"
    by code_simp
  have n: "queryAllByLabelText css_engine many_ways_document [] (MString ''Name'') no_options
     = (Inr [Some [0, 1], Some [2], Some [3]] :: unit error + path option list)"
    by code_simp
  have f: "element_matches css_engine many_ways_document [2] ''input'' = (Inr False :: unit error + bool)"
    "element_matches css_engine many_ways_document [3] ''input'' = (Inr False :: unit error + bool)"
    by code_simp+
  from queryAllByLabelText_distinct_selected [OF q]
  have "element_matches css_engine many_ways_document [0, 1] ''input'' = (Inr True :: unit error + bool)
        \<and> element_at many_ways_document [0, 1] \<noteq> None"
    unfolding s by simp
  with q l n f show ?thesis by simp
qed

section \<open>The errors of the required label query\<close>

text \<open>How \<open>getAllByLabelText\<close> chooses between its results, in terms of what
  \<open>queryAllLabelsByText\<close> returns: an empty resolution throws what the error reporter
  builds from one of the two messages, a resolution that is not empty is returned.\<close>

lemma queryAllByLabelText_labels:
  assumes "queryAllByLabelText engine doc container text opts = (Inr els :: 'e error + path option list)"
  shows "\<exists>found. queryAllLabelsByText engine doc container text opts = (Inr found :: 'e error + path list)"
  using queryAllByLabelText_steps [OF assms] by blast

lemma getAllByLabelText_cases:
  \<open>(queryAllByLabelText engine doc container text opts = (Inr [] :: 'e error + path option list) \<longrightarrow>
      (\<exists>found. queryAllLabelsByText engine doc container text opts = (Inr found :: 'e error + path list) \<and>
         getAllByLabelText engine getElementError doc container text opts =
           Inl (Reported ((getElementError :: string \<Rightarrow> path \<Rightarrow> 'e)
                  (if found \<noteq> []
                   then ''Found a label with the text of: '' @ matcher_text text @
                        '', however no form control was found associated to that label. Make sure you're using the "for" attribute or "aria-labelledby" attribute correctly.''
                   else ''Unable to find a label with the text of: '' @ matcher_text text)
                  container))))
   \<and> (\<forall>els. queryAllByLabelText engine doc container text opts = (Inr els :: 'e error + path option list)
            \<and> els \<noteq> [] \<longrightarrow>
         getAllByLabelText engine getElementError doc container text opts = Inr els)\<close>
proof (intro conjI impI allI)
  assume e: "queryAllByLabelText engine doc container text opts = (Inr [] :: 'e error + path option list)"
  from queryAllByLabelText_labels [OF e] obtain found where
    f: "queryAllLabelsByText engine doc container text opts = (Inr found :: 'e error + path list)"
    by blast
  have \<open>getAllByLabelText engine getElementError doc container text opts =
           Inl (Reported (getElementError
                  (if found \<noteq> []
                   then ''Found a label with the text of: '' @ matcher_text text @
                        '', however no form control was found associated to that label. Make sure you're using the "for" attribute or "aria-labelledby" attribute correctly.''
                   else ''Unable to find a label with the text of: '' @ matcher_text text)
                  container))\<close>
    unfolding getAllByLabelText_def e f thenE_simps by simp
  with f show \<open>\<exists>found. queryAllLabelsByText engine doc container text opts = (Inr found :: 'e error + path list) \<and>
         getAllByLabelText engine getElementError doc container text opts =
           Inl (Reported (getElementError
                  (if found \<noteq> []
                   then ''Found a label with the text of: '' @ matcher_text text @
                        '', however no form control was found associated to that label. Make sure you're using the "for" attribute or "aria-labelledby" attribute correctly.''
                   else ''Unable to find a label with the text of: '' @ matcher_text text)
                  container))\<close>
    by blast
next
  fix els
  assume "queryAllByLabelText engine doc container text opts = (Inr els :: 'e error + path option list)
            \<and> els \<noteq> []"
  then show "getAllByLabelText engine getElementError doc container text opts = Inr els"
    by (simp add: getAllByLabelText_def thenE_simps)
qed


section \<open>The title of an svg\<close>

text \<open>
  Claim C7, as stated: in \<^verbatim>\<open><svg><title>Close</title></svg>\<close> the exact title query for
  \<open>Close\<close> returns the \<open>svg\<close> node. It does not: the \<open>svg\<close> node is the child \<open>[0]\<close> of the
  container.
\<close>

theorem svg_title_query_not_svg:
  "(queryAllByTitle css_engine svg_document [] (MString ''Close'') exact_options :: unit error + path list)
     \<noteq> Inr [[0]]"
  by code_simp

text \<open>
  Claim C7, amended: the exact title query for \<open>Close\<close> returns the \<open>title\<close> node, the
  child of the \<open>svg\<close> node, which the selector \<open>svg > title\<close> selects.
\<close>

theorem svg_title_query_returns_title:
  "(queryAllByTitle css_engine svg_document [] (MString ''Close'') exact_options :: unit error + path list)
     = Inr [[0, 0]]
   \<and> tagName (node_of svg_document [0, 0]) = Some ''title''
   \<and> tagName (node_of svg_document [0]) = Some ''svg''"
  by code_simp

section \<open>The order of the results\<close>

text \<open>
  Claim C9, as stated: the nodes that \<open>queryAllByLabelText\<close> returns stand in the order in
  which the traversal of the container visits them. In \<open>mixed_order_document\<close> the input
  with the \<open>aria-label\<close> is visited first and returned last.
\<close>

theorem label_query_not_in_document_order:
  "queryAllByLabelText css_engine mixed_order_document [] (MString ''Name'') no_options
     = (Inr [Some [2], Some [0]] :: unit error + path option list)
   \<and> descendants mixed_order_document [] = [[0], [1], [2]]
   \<and> \<not> subseq [Some [2], Some [0]] (map Some (descendants mixed_order_document []))"
  by code_simp

text \<open>
  Claim C9, amended. \<open>queryAllByTitle\<close> returns the matched nodes in document order, as a
  subsequence of the traversal of the container. \<open>queryAllByLabelText\<close> returns its nodes
  in the order in which it collects them, with no further reordering. It collects, for
  each matching label in document order, the control of the label, the target of its
  \<open>for\<close>, the nodes that the lookup through its id gives, in document order, and its
  first nested form control that satisfies the selector; then the nodes with a matching
  \<open>aria-label\<close>, in document order; then, for each node with matching own text in
  document order, the nodes that the lookup through its id gives, in document order.
  Of this sequence the \<open>null\<close> entries of the label part are dropped, every node is kept
  at its first occurrence only, and the nodes that do not satisfy the selector are
  dropped.
\<close>

theorem query_result_order:
  "(queryAllByTitle engine doc container text topts = (Inr ns :: 'e error + path list) \<longrightarrow>
      subseq ns (descendants doc container))
   \<and> (queryAllByLabelText engine doc container text opts = (Inr els :: 'e error + path option list) \<longrightarrow>
      (\<exists>ls per attrEls ts groups.
         queryAllLabelsByText engine doc container text opts = (Inr ls :: 'e error + path list)
         \<and> subseq ls (descendants doc container)
         \<and> map (elementsForLabel engine doc container
                  (case selector opts of None \<Rightarrow> ''*'' | Some s \<Rightarrow> s)) ls
             = map (Inr :: path option list \<Rightarrow> 'e error + path option list) per
         \<and> (\<forall>(l, r) \<in> set (zip ls per). \<exists>f b n.
                pushed_for engine doc container l = (Inr f :: 'e error + path option list)
                \<and> pushed_labelledby engine doc container l
                    = (Inr (map Some b) :: 'e error + path option list)
                \<and> pushed_nested engine doc
                      (case selector opts of None \<Rightarrow> ''*'' | Some s \<Rightarrow> s) l
                    = (Inr n :: 'e error + path option list)
                \<and> r = pushed_control doc l @ f @ map Some b @ n
                \<and> length (pushed_control doc l) \<le> 1 \<and> length f \<le> 1
                \<and> subseq b (descendants doc container) \<and> length n \<le> 1)
         \<and> queryAllByAttribute engine ''aria-label'' doc container text
              \<lparr>exact = exact opts, collapseWhitespace = None, trim = None, normalizer = None\<rparr>
             = (Inr attrEls :: 'e error + path list)
         \<and> subseq attrEls (descendants doc container)
         \<and> queryAllByText engine doc container text opts = (Inr ts :: 'e error + path list)
         \<and> subseq ts (container # descendants doc container)
         \<and> map (labelledNodes_of engine doc container) ts
             = map (Inr :: path list \<Rightarrow> 'e error + path list) groups
         \<and> (\<forall>g \<in> set groups. subseq g (descendants doc container))
         \<and> els = filter (\<lambda>e. case e of
                                None \<Rightarrow> False
                              | Some p \<Rightarrow>
                                  element_matches engine doc p
                                    (case selector opts of None \<Rightarrow> ''*'' | Some s \<Rightarrow> s)
                                  = (Inr True :: 'e error + bool))
                   (rev (remdups (rev (filter (\<lambda>e. e \<noteq> None) (concat per)
                                       @ map Some attrEls @ map Some (concat groups)))))))"
proof (intro conjI impI)
  assume "queryAllByTitle engine doc container text topts = (Inr ns :: 'e error + path list)"
  then show "subseq ns (descendants doc container)"
    by (rule queryAllByTitle_subseq)
next
  define sel where "sel = (case selector opts of None \<Rightarrow> ''*'' | Some s \<Rightarrow> s)"
  assume q: "queryAllByLabelText engine doc container text opts = (Inr els :: 'e error + path option list)"
  from queryAllByLabelText_steps [OF q] obtain ls per attrEls ts groups where
    ls: "queryAllLabelsByText engine doc container text opts = (Inr ls :: 'e error + path list)"
    and per: "map (elementsForLabel engine doc container sel) ls
               = map (Inr :: path option list \<Rightarrow> 'e error + path option list) per"
    and at: "queryAllByAttribute engine ''aria-label'' doc container text
                \<lparr>exact = exact opts, collapseWhitespace = None, trim = None, normalizer = None\<rparr>
               = (Inr attrEls :: 'e error + path list)"
    and ts: "queryAllByText engine doc container text opts = (Inr ts :: 'e error + path list)"
    and gr: "map (labelledNodes_of engine doc container) ts
               = map (Inr :: path list \<Rightarrow> 'e error + path list) groups"
    and els: "els = filter (\<lambda>e. case e of
                                  None \<Rightarrow> False
                                | Some p \<Rightarrow> element_matches engine doc p sel = (Inr True :: 'e error + bool))
                     (rev (remdups (rev (filter (\<lambda>e. e \<noteq> None) (concat per)
                                         @ map Some attrEls @ map Some (concat groups)))))"
    unfolding sel_def by blast
  have parts: "\<forall>(l, r) \<in> set (zip ls per). \<exists>f b n.
                pushed_for engine doc container l = (Inr f :: 'e error + path option list)
                \<and> pushed_labelledby engine doc container l
                    = (Inr (map Some b) :: 'e error + path option list)
                \<and> pushed_nested engine doc sel l = (Inr n :: 'e error + path option list)
                \<and> r = pushed_control doc l @ f @ map Some b @ n
                \<and> length (pushed_control doc l) \<le> 1 \<and> length f \<le> 1
                \<and> subseq b (descendants doc container) \<and> length n \<le> 1"
  proof (clarify)
    fix l r
    assume "(l, r) \<in> set (zip ls per)"
    from map_Inr_zip [OF per this]
    have "elementsForLabel engine doc container sel l = (Inr r :: 'e error + path option list)" .
    then show "\<exists>f b n.
                pushed_for engine doc container l = (Inr f :: 'e error + path option list)
                \<and> pushed_labelledby engine doc container l
                    = (Inr (map Some b) :: 'e error + path option list)
                \<and> pushed_nested engine doc sel l = (Inr n :: 'e error + path option list)
                \<and> r = pushed_control doc l @ f @ map Some b @ n
                \<and> length (pushed_control doc l) \<le> 1 \<and> length f \<le> 1
                \<and> subseq b (descendants doc container) \<and> length n \<le> 1"
      by (rule elementsForLabel_parts)
  qed
  have groups: "\<forall>g \<in> set groups. subseq g (descendants doc container)"
  proof
    fix g
    assume "g \<in> set groups"
    from map_Inr_member [OF gr this] obtain t where
      "labelledNodes_of engine doc container t = (Inr g :: 'e error + path list)"
      by blast
    then show "subseq g (descendants doc container)" by (rule labelledNodes_of_subseq)
  qed
  from queryAllByText_subseq [OF ts] have tsub: "subseq ts (container # descendants doc container)"
    by (rule list_emb_Cons)
  from ls queryAllLabelsByText_subseq [OF ls] per parts at queryAllByAttribute_subseq [OF at]
    ts tsub gr groups els
  show "\<exists>ls per attrEls ts groups.
         queryAllLabelsByText engine doc container text opts = (Inr ls :: 'e error + path list)
         \<and> subseq ls (descendants doc container)
         \<and> map (elementsForLabel engine doc container
                  (case selector opts of None \<Rightarrow> ''*'' | Some s \<Rightarrow> s)) ls
             = map (Inr :: path option list \<Rightarrow> 'e error + path option list) per
         \<and> (\<forall>(l, r) \<in> set (zip ls per). \<exists>f b n.
                pushed_for engine doc container l = (Inr f :: 'e error + path option list)
                \<and> pushed_labelledby engine doc container l
                    = (Inr (map Some b) :: 'e error + path option list)
                \<and> pushed_nested engine doc
                      (case selector opts of None \<Rightarrow> ''*'' | Some s \<Rightarrow> s) l
                    = (Inr n :: 'e error + path option list)
                \<and> r = pushed_control doc l @ f @ map Some b @ n
                \<and> length (pushed_control doc l) \<le> 1 \<and> length f \<le> 1
                \<and> subseq b (descendants doc container) \<and> length n \<le> 1)
         \<and> queryAllByAttribute engine ''aria-label'' doc container text
              \<lparr>exact = exact opts, collapseWhitespace = None, trim = None, normalizer = None\<rparr>
             = (Inr attrEls :: 'e error + path list)
         \<and> subseq attrEls (descendants doc container)
         \<and> queryAllByText engine doc container text opts = (Inr ts :: 'e error + path list)
         \<and> subseq ts (container # descendants doc container)
         \<and> map (labelledNodes_of engine doc container) ts
             = map (Inr :: path list \<Rightarrow> 'e error + path list) groups
         \<and> (\<forall>g \<in> set groups. subseq g (descendants doc container))
         \<and> els = filter (\<lambda>e. case e of
                                None \<Rightarrow> False
                              | Some p \<Rightarrow>
                                  element_matches engine doc p
                                    (case selector opts of None \<Rightarrow> ''*'' | Some s \<Rightarrow> s)
                                  = (Inr True :: 'e error + bool))
                   (rev (remdups (rev (filter (\<lambda>e. e \<noteq> None) (concat per)
                                       @ map Some attrEls @ map Some (concat groups)))))"
    unfolding sel_def by blast
qed

text \<open>
  In \<open>two_titles_document\<close> both nodes with the title are returned in document order. In
  \<open>many_to_many_document\<close> the label \<open>a\<close> collects the inputs \<open>[2]\<close> and \<open>[3]\<close>, no node
  has an \<open>aria-label\<close>, and the nodes with the own text \<open>Name\<close>, the label \<open>a\<close> and the
  span \<open>b\<close>, collect \<open>[2]\<close>, \<open>[3]\<close> and \<open>[2]\<close>: of the sequence \<open>[2]\<close>, \<open>[3]\<close>, \<open>[2]\<close>,
  \<open>[3]\<close>, \<open>[2]\<close> the first occurrences are returned, \<open>[2]\<close> before \<open>[3]\<close>, where the last
  occurrences would be \<open>[3]\<close> before \<open>[2]\<close>.
\<close>

theorem query_result_order_witness:
  "queryAllByTitle css_engine two_titles_document [] (MString ''Hi'') no_options
     = (Inr [[0], [1]] :: unit error + path list)
   \<and> subseq [[0], [1]] (descendants two_titles_document [])
   \<and> queryAllByLabelText css_engine many_to_many_document [] (MString ''Name'') no_options
     = (Inr [Some [2], Some [3]] :: unit error + path option list)
   \<and> queryAllLabelsByText css_engine many_to_many_document [] (MString ''Name'') no_options
     = (Inr [[0]] :: unit error + path list)
   \<and> map (elementsForLabel css_engine many_to_many_document [] ''*'') [[0]]
     = [Inr [Some [2], Some [3]] :: unit error + path option list]
   \<and> queryAllByAttribute css_engine ''aria-label'' many_to_many_document [] (MString ''Name'')
        \<lparr>exact = None, collapseWhitespace = None, trim = None, normalizer = None\<rparr>
     = (Inr [] :: unit error + path list)
   \<and> queryAllByText css_engine many_to_many_document [] (MString ''Name'') no_options
     = (Inr [[0], [1]] :: unit error + path list)
   \<and> map (labelledNodes_of css_engine many_to_many_document []) [[0], [1]]
     = [Inr [[2], [3]], Inr [[2]] :: unit error + path list]
   \<and> [Some [2], Some [3]]
     = filter (\<lambda>e. case e of
                     None \<Rightarrow> False
                   | Some p \<Rightarrow> element_matches css_engine many_to_many_document p ''*''
                               = (Inr True :: unit error + bool))
         (rev (remdups (rev (filter (\<lambda>e. e \<noteq> None) (concat [[Some [2], Some [3]]])
                             @ map Some [] @ map Some (concat [[[2], [3]], [[2]]])))))
   \<and> rev (remdups (rev [Some [2], Some [3], Some [2], Some [3], Some [2 :: nat]]))
     = [Some [2], Some [3]]
   \<and> remdups [Some [2], Some [3], Some [2], Some [3], Some [2 :: nat]] = [Some [3], Some [2]]"
proof -
  have t: "queryAllByTitle css_engine two_titles_document [] (MString ''Hi'') no_options
             = (Inr [[0], [1]] :: unit error + path list)"
    by code_simp
  have q: "queryAllByLabelText css_engine many_to_many_document [] (MString ''Name'') no_options
             = (Inr [Some [2], Some [3]] :: unit error + path option list)"
    by code_simp
  have l: "queryAllLabelsByText css_engine many_to_many_document [] (MString ''Name'') no_options
             = (Inr [[0]] :: unit error + path list)"
    by code_simp
  have p: "map (elementsForLabel css_engine many_to_many_document [] ''*'') [[0]]
             = [Inr [Some [2], Some [3]] :: unit error + path option list]"
    by code_simp
  have a: "queryAllByAttribute css_engine ''aria-label'' many_to_many_document [] (MString ''Name'')
             \<lparr>exact = None, collapseWhitespace = None, trim = None, normalizer = None\<rparr>
             = (Inr [] :: unit error + path list)"
    by code_simp
  have x: "queryAllByText css_engine many_to_many_document [] (MString ''Name'') no_options
             = (Inr [[0], [1]] :: unit error + path list)"
    by code_simp
  have g: "map (labelledNodes_of css_engine many_to_many_document []) [[0], [1]]
             = [Inr [[2], [3]], Inr [[2]] :: unit error + path list]"
    by code_simp
  have r: "rev (remdups (rev [Some [2], Some [3], Some [2], Some [3], Some [2 :: nat]]))
             = [Some [2], Some [3]]"
    "remdups [Some [2], Some [3], Some [2], Some [3], Some [2 :: nat]] = [Some [3], Some [2]]"
    by simp_all
  have o: "selector no_options = None" "exact no_options = None"
    by (simp_all add: no_options_def)
  from query_result_order [THEN conjunct1, THEN mp, OF t]
  have s: "subseq [[0], [1]] (descendants two_titles_document [])" .
  from query_result_order [THEN conjunct2, THEN mp, OF q] obtain ls per attrEls ts groups where
    ls: "queryAllLabelsByText css_engine many_to_many_document [] (MString ''Name'') no_options
           = (Inr ls :: unit error + path list)"
    and per: "map (elementsForLabel css_engine many_to_many_document [] ''*'') ls
           = map (Inr :: path option list \<Rightarrow> unit error + path option list) per"
    and at: "queryAllByAttribute css_engine ''aria-label'' many_to_many_document [] (MString ''Name'')
             \<lparr>exact = None, collapseWhitespace = None, trim = None, normalizer = None\<rparr>
             = (Inr attrEls :: unit error + path list)"
    and ts: "queryAllByText css_engine many_to_many_document [] (MString ''Name'') no_options
           = (Inr ts :: unit error + path list)"
    and gr: "map (labelledNodes_of css_engine many_to_many_document []) ts
           = map (Inr :: path list \<Rightarrow> unit error + path list) groups"
    and els: "[Some [2], Some [3]]
     = filter (\<lambda>e. case e of
                     None \<Rightarrow> False
                   | Some p \<Rightarrow> element_matches css_engine many_to_many_document p ''*''
                               = (Inr True :: unit error + bool))
         (rev (remdups (rev (filter (\<lambda>e. e \<noteq> None) (concat per)
                             @ map Some attrEls @ map Some (concat groups)))))"
    unfolding o by auto
  from ls l have ls_eq: "ls = [[0]]" by simp
  from at a have at_eq: "attrEls = []" by simp
  from ts x have ts_eq: "ts = [[0], [1]]" by simp
  from per have per_eq: "per = [[Some [2], Some [3]]]" unfolding ls_eq p by auto
  from gr have gr_eq: "groups = [[[2], [3]], [[2]]]" unfolding ts_eq g by auto
  note e = els [unfolded per_eq at_eq gr_eq]
  from t s q l p a x g e r show ?thesis by blast
qed

section \<open>Association through \<open>aria-labelledby\<close>\<close>

lemma lex_str_quote_free:
  "quote_free v \<Longrightarrow> lex (LStr (CHR 0x22) s) (v @ rest) = lex (LStr (CHR 0x22) (s @ v)) rest"
  by (induction v arbitrary: s) (auto simp: quote_free_def)

lemma lex_labelledby_prefix:
  \<open>lex LTop (''[aria-labelledby~="'' @ rest)
     = [Sym (CHR ''[''), Word ''aria-labelledby'', Includes_op] @ lex (LStr (CHR 0x22) []) rest\<close>
  by (simp add: lex_top_def css_space_def name_char_def)

lemma lex_labelledby:
  assumes "quote_free i"
  shows "lex LTop (labelledby_selector i)
         = [Sym (CHR ''[''), Word ''aria-labelledby'', Includes_op, Str i, Sym (CHR '']'')]"
proof -
  have "lex (LStr (CHR 0x22) []) (i @ [CHR 0x22, CHR '']'']) = lex (LStr (CHR 0x22) i) [CHR 0x22, CHR '']'']"
    using lex_str_quote_free [OF assms, of "[]"] by simp
  also have "\<dots> = [Str i, Sym (CHR '']'')]"
    by (simp add: lex_top_def css_space_def name_char_def)
  finally show ?thesis
    unfolding labelledby_selector_def lex_labelledby_prefix by simp
qed

lemma split_on_none: "sep \<notin> set xs \<Longrightarrow> split_on sep acc xs = [acc @ xs]"
  by (induction xs arbitrary: acc) auto

lemma parse_attr_includes:
  "parse_attr [Word ''aria-labelledby'', Includes_op, Str i] = Parsed (Attr_includes ''aria-labelledby'' i False)"
  by (simp add: parse_attr_def attr_with_def ident_of_def attr_value_of_def valid_ident_def digit_char_def
      ascii_lower_def ascii_lower_char_def)

lemma parse_compound_labelledby:
  "parse_compound [Sym (CHR ''[''), Word ''aria-labelledby'', Includes_op, Str i, Sym (CHR '']'')]
    = Parsed (None, [Attr_includes ''aria-labelledby'' i False])"
  by (simp add: parse_compound_def parse_attr_includes all_parsed_def)

lemma parse_complex_labelledby:
  "parse_complex [Sym (CHR ''[''), Word ''aria-labelledby'', Includes_op, Str i, Sym (CHR '']'')]
    = Parsed [(None, [Attr_includes ''aria-labelledby'' i False])]"
  unfolding parse_complex_def
  by (simp add: split_on_none strip_space_def parse_compound_labelledby all_parsed_def)

lemma parse_labelledby:
  assumes "quote_free i"
  shows "css_parse (labelledby_selector i)
         = Inr [[(None, [Attr_includes ''aria-labelledby'' i False])]]"
  unfolding css_parse_def lex_labelledby [OF assms]
  by (simp add: split_on_none parse_complex_labelledby all_parsed_def)

lemma tokens_go_tokens:
  "t \<in> set (tokens_go w s) \<Longrightarrow> \<not> list_ex css_space w \<Longrightarrow> t \<noteq> [] \<and> \<not> list_ex css_space t"
proof (induction w s rule: tokens_go.induct)
  case (1 w)
  then show ?case by (simp split: if_splits)
next
  case (2 w c cs)
  show ?case
  proof (cases "css_space c")
    case True
    with 2 show ?thesis by (cases "w = []") auto
  next
    case False
    with 2 show ?thesis by simp
  qed
qed

lemma token_list_tokens: "t \<in> set (token_list s) \<Longrightarrow> t \<noteq> [] \<and> \<not> list_ex css_space t"
  unfolding token_list_def by (erule tokens_go_tokens) simp

lemma attr_includes_tokens:
  "attr_holds n (Attr_includes a i False) =
     (case getAttribute n a of None \<Rightarrow> False | Some x \<Rightarrow> i \<in> set (token_list x))"
  using token_list_tokens [of i]
  by (auto simp: value_eq_def list_ex_iff split: option.splits)

lemma labelledby_holds:
  "selector_holds doc p [[(None, [Attr_includes ''aria-labelledby'' i False])]] = has_token doc p i"
proof (cases "node_at doc p")
  case None
  then show ?thesis by (simp add: selector_holds_def has_token_def node_of_def)
next
  case (Some n)
  have "compound_holds n (None, [Attr_includes ''aria-labelledby'' i False])
        = (case getAttribute n ''aria-labelledby'' of None \<Rightarrow> False | Some x \<Rightarrow> i \<in> set (token_list x))"
    by (cases n) (simp_all add: compound_holds_def attr_includes_tokens del: attr_holds.simps)
  with Some show ?thesis by (simp add: selector_holds_def has_token_def node_of_def)
qed

text \<open>The engine of the grammar reads the selector that is built around an id without a
  double quote, a backslash or a line break as the test for that id among the tokens of
  \<open>aria-labelledby\<close>.\<close>

lemma css_engine_labelledby:
  assumes "quote_free i"
  shows "css_engine (labelledby_selector i)
           = (Inr (\<lambda>doc scope p. has_token doc p i) :: 'e error + (node \<Rightarrow> path \<Rightarrow> path \<Rightarrow> bool))"
  by (simp add: css_engine_def parse_labelledby [OF assms] labelledby_holds)











section \<open>The unquoted id selector of the suggestions\<close>

lemma name_not_space: "name_char c \<Longrightarrow> \<not> css_space c"
  by (auto simp: name_char_def css_space_def)

lemma lex_ids:
  assumes "id_chars a"
  shows "(\<exists>T. lex LTop (a @ '']'') = T @ [Sym (CHR '']'')] \<and> soft T
            \<and> filter (\<lambda>t. t \<noteq> Space) T = map Word (tokens_go [] a))
         \<and> (\<forall>w. w \<noteq> [] \<longrightarrow>
              (\<exists>T. lex (LWord w) (a @ '']'') = T @ [Sym (CHR '']'')] \<and> soft T
                 \<and> filter (\<lambda>t. t \<noteq> Space) T = map Word (tokens_go w a)))"
  using assms
proof (induction a)
  case Nil
  show ?case
    by (simp add: lex_top_def css_space_def name_char_def soft_def)
next
  case (Cons c a)
  then have ih: "id_chars a" and c: "name_char c \<or> css_space c"
    by (simp_all add: id_chars_def)
  from Cons.IH [OF ih] obtain T0 where
    T0: "lex LTop (a @ '']'') = T0 @ [Sym (CHR '']'')]" "soft T0"
        "filter (\<lambda>t. t \<noteq> Space) T0 = map Word (tokens_go [] a)"
    by blast
  from Cons.IH [OF ih] have W: "\<And>w. w \<noteq> [] \<Longrightarrow>
       \<exists>T. lex (LWord w) (a @ '']'') = T @ [Sym (CHR '']'')] \<and> soft T
          \<and> filter (\<lambda>t. t \<noteq> Space) T = map Word (tokens_go w a)"
    by blast
  show ?case
  proof (cases "css_space c")
    case True
    then have nn: "\<not> name_char c" using name_not_space by blast
    have top: "\<exists>T. lex LTop ((c # a) @ '']'') = T @ [Sym (CHR '']'')] \<and> soft T
            \<and> filter (\<lambda>t. t \<noteq> Space) T = map Word (tokens_go [] (c # a))"
      using T0 True by (intro exI [of _ "Space # T0"]) (simp add: lex_top_def soft_def)
    have word: "\<exists>T. lex (LWord w) ((c # a) @ '']'') = T @ [Sym (CHR '']'')] \<and> soft T
                 \<and> filter (\<lambda>t. t \<noteq> Space) T = map Word (tokens_go w (c # a))" if "w \<noteq> []" for w
      using T0 True nn that by (intro exI [of _ "Word w # Space # T0"]) (simp add: lex_top_def soft_def)
    from top word show ?thesis by blast
  next
    case False
    with c have n: "name_char c" by blast
    from W [of "[c]"] obtain T1 where
      T1: "lex (LWord [c]) (a @ '']'') = T1 @ [Sym (CHR '']'')]" "soft T1"
          "filter (\<lambda>t. t \<noteq> Space) T1 = map Word (tokens_go [c] a)"
      by auto
    have top: "\<exists>T. lex LTop ((c # a) @ '']'') = T @ [Sym (CHR '']'')] \<and> soft T
            \<and> filter (\<lambda>t. t \<noteq> Space) T = map Word (tokens_go [] (c # a))"
      using T1 False n by (intro exI [of _ T1]) (simp add: lex_top_def)
    have word: "\<exists>T. lex (LWord w) ((c # a) @ '']'') = T @ [Sym (CHR '']'')] \<and> soft T
                 \<and> filter (\<lambda>t. t \<noteq> Space) T = map Word (tokens_go w (c # a))" if "w \<noteq> []" for w
    proof -
      from W [of "w @ [c]"] obtain T2 where
        "lex (LWord (w @ [c])) (a @ '']'') = T2 @ [Sym (CHR '']'')]" "soft T2"
        "filter (\<lambda>t. t \<noteq> Space) T2 = map Word (tokens_go (w @ [c]) a)"
        by auto
      then show ?thesis using False n by (intro exI [of _ T2]) simp
    qed
    from top word show ?thesis by blast
  qed
qed

lemma parse_attrs_soft:
  "soft T \<Longrightarrow> parse_attrs (Some acc) (T @ [Sym (CHR '']'')])
     = [parse_attr (acc @ filter (\<lambda>t. t \<noteq> Space) T)]"
proof (induction T arbitrary: acc)
  case Nil
  show ?case by simp
next
  case (Cons t T)
  then show ?case by (cases t) (simp_all add: soft_def)
qed

lemma lex_unquoted_prefix:
  "lex LTop (unquoted_id_selector a)
     = Sym (CHR ''['') # Word ''id'' # Sym (CHR ''='') # lex LTop (a @ '']'')"
  by (simp add: unquoted_id_selector_def lex_top_def css_space_def name_char_def)

lemma strip_space_brackets:
  "strip_space (Sym c # ts @ [Sym d]) = Sym c # ts @ [Sym d]"
  by (simp add: strip_space_def)

lemma soft_no_sym: "soft T \<Longrightarrow> Sym c \<notin> set T"
  by (induction T) (auto simp: soft_def)

lemma parse_attr_several:
  assumes "3 \<le> length toks
           \<or> (length toks = 2 \<and> ascii_lower (toks ! 1) \<noteq> ''i'' \<and> ascii_lower (toks ! 1) \<noteq> ''s'')"
  shows "parse_attr ([Word ''id'', Sym (CHR ''='')] @ map Word toks) = Invalid"
proof (cases toks)
  case Nil
  with assms show ?thesis by simp
next
  case (Cons t1 r1)
  show ?thesis
  proof (cases r1)
    case Nil
    with Cons assms show ?thesis by simp
  next
    case (Cons t2 r2)
    show ?thesis
    proof (cases r2)
      case Nil
      with \<open>toks = t1 # r1\<close> \<open>r1 = t2 # r2\<close> assms show ?thesis
        by (simp add: parse_attr_def attr_fallback_def)
    next
      case (Cons t3 r3)
      with \<open>toks = t1 # r1\<close> \<open>r1 = t2 # r2\<close> show ?thesis
        by (cases r3) (auto simp add: parse_attr_def attr_fallback_def)
    qed
  qed
qed

lemma parse_several_ids:
  assumes "several_ids a"
  shows "css_parse (unquoted_id_selector a) = (Inl (SyntaxError (unquoted_id_selector a)) :: 'e error + selector)"
proof -
  from assms have ic: "id_chars a"
    and n: "3 \<le> length (token_list a)
       \<or> (length (token_list a) = 2
           \<and> ascii_lower (token_list a ! 1) \<noteq> ''i'' \<and> ascii_lower (token_list a ! 1) \<noteq> ''s'')"
    by (simp_all add: several_ids_def)
  from lex_ids [OF ic] obtain T where
    T: "lex LTop (a @ '']'') = T @ [Sym (CHR '']'')]" "soft T"
       "filter (\<lambda>t. t \<noteq> Space) T = map Word (token_list a)"
    unfolding token_list_def by blast
  define X where "X = Sym (CHR ''['') # (Word ''id'' # Sym (CHR ''='') # T) @ [Sym (CHR '']'')]"
  have lx: "lex LTop (unquoted_id_selector a) = X"
    unfolding lex_unquoted_prefix T(1) X_def by simp
  have no_sym: "Sym c \<notin> set X" if "c \<noteq> CHR ''[''" "c \<noteq> CHR '']''" "c \<noteq> CHR ''=''" for c
    using that soft_no_sym [OF T(2)] by (auto simp: X_def)
  have attrs: "parse_attrs None X = [Invalid]"
  proof -
    have "parse_attrs None X = parse_attrs (Some [Word ''id'', Sym (CHR ''='')]) (T @ [Sym (CHR '']'')])"
      by (simp add: X_def)
    also have "\<dots> = [parse_attr ([Word ''id'', Sym (CHR ''='')] @ map Word (token_list a))]"
      unfolding parse_attrs_soft [OF T(2)] T(3) ..
    also have "\<dots> = [Invalid]"
      using parse_attr_several [OF n] by simp
    finally show ?thesis .
  qed
  have compound: "parse_compound X = Invalid"
    using attrs by (simp add: parse_compound_def X_def all_parsed_def)
  have "strip_space X = X"
    unfolding X_def by (rule strip_space_brackets)
  then have complex: "parse_complex X = Invalid"
    using compound no_sym [of "CHR ''>''"]
    by (simp add: parse_complex_def split_on_none all_parsed_def)
  show ?thesis
    unfolding css_parse_def lx
    using complex no_sym [of "CHR '',''"]
    by (simp add: split_on_none all_parsed_def lx [symmetric])
qed

lemma tokens_go_word:
  "list_all name_char a \<Longrightarrow> tokens_go w a = (if w @ a = [] then [] else [w @ a])"
  by (induction a arbitrary: w) (auto simp: name_not_space)

lemma parse_attr_ident:
  "valid_ident a \<Longrightarrow> parse_attr [Word ''id'', Sym (CHR ''=''), Word a] = Parsed (Attr_equals ''id'' a False)"
  by (simp add: parse_attr_def attr_with_def ident_of_def attr_value_of_def valid_ident_def digit_char_def
      ascii_lower_def ascii_lower_char_def)

lemma parse_plain_id:
  assumes "plain_id a"
  shows "css_parse (unquoted_id_selector a) = (Inr [[(None, [Attr_equals ''id'' a False])]] :: 'e error + selector)"
proof -
  from assms have nc: "list_all name_char a" and v: "valid_ident a"
    by (simp_all add: plain_id_def)
  from v have ne: "a \<noteq> []" by (auto simp: valid_ident_def)
  from nc have ic: "id_chars a" by (simp add: id_chars_def list_all_iff)
  from lex_ids [OF ic] obtain T where
    T: "lex LTop (a @ '']'') = T @ [Sym (CHR '']'')]" "soft T"
       "filter (\<lambda>t. t \<noteq> Space) T = [Word a]"
    using tokens_go_word [OF nc, of "[]"] ne by auto
  define X where "X = Sym (CHR ''['') # (Word ''id'' # Sym (CHR ''='') # T) @ [Sym (CHR '']'')]"
  have lx: "lex LTop (unquoted_id_selector a) = X"
    unfolding lex_unquoted_prefix T(1) X_def by simp
  have no_sym: "Sym c \<notin> set X" if "c \<noteq> CHR ''[''" "c \<noteq> CHR '']''" "c \<noteq> CHR ''=''" for c
    using that soft_no_sym [OF T(2)] by (auto simp: X_def)
  have attrs: "parse_attrs None X = [Parsed (Attr_equals ''id'' a False)]"
  proof -
    have "parse_attrs None X = parse_attrs (Some [Word ''id'', Sym (CHR ''='')]) (T @ [Sym (CHR '']'')])"
      by (simp add: X_def)
    also have "\<dots> = [parse_attr ([Word ''id'', Sym (CHR ''='')] @ [Word a])]"
      unfolding parse_attrs_soft [OF T(2)] T(3) ..
    also have "\<dots> = [Parsed (Attr_equals ''id'' a False)]"
      using parse_attr_ident [OF v] by simp
    finally show ?thesis .
  qed
  have compound: "parse_compound X = Parsed (None, [Attr_equals ''id'' a False])"
    using attrs by (simp add: parse_compound_def X_def all_parsed_def)
  have "strip_space X = X"
    unfolding X_def by (rule strip_space_brackets)
  then have complex: "parse_complex X = Parsed [(None, [Attr_equals ''id'' a False])]"
    using compound no_sym [of "CHR ''>''"]
    by (simp add: parse_complex_def split_on_none all_parsed_def)
  show ?thesis
    unfolding css_parse_def lx
    using complex no_sym [of "CHR '',''"]
    by (simp add: split_on_none all_parsed_def)
qed

lemma id_equals_holds:
  "selector_holds doc p [[(None, [Attr_equals ''id'' a False])]]
     = (getAttribute (node_of doc p) ''id'' = Some a)"
proof (cases "node_at doc p")
  case None
  then show ?thesis by (simp add: selector_holds_def node_of_def)
next
  case (Some n)
  then show ?thesis
    by (cases n) (auto simp add: selector_holds_def node_of_def compound_holds_def value_eq_def
        split: option.splits)
qed

lemma first_of_filter: "(case filter P xs of [] \<Rightarrow> None | p # _ \<Rightarrow> Some p) = find P xs"
  by (induction xs) auto

lemma document_querySelector_plain_id:
  assumes "plain_id a"
  shows "document_querySelector css_engine doc (unquoted_id_selector a)
           = (Inr (find (\<lambda>p. getAttribute (node_of doc p) ''id'' = Some a) (element_paths doc))
               :: 'e error + path option)"
  by (simp add: document_querySelector_def css_engine_def parse_plain_id [OF assms] thenE_simps
      id_equals_holds first_of_filter)

section \<open>The label text of a suggestion\<close>

lemma several_ids_nonempty: "several_ids a \<Longrightarrow> a \<noteq> []"
  by (auto simp: several_ids_def token_list_def)

lemma native_label_None:
  "(native_label doc element = None)
     = (case labels doc element of
          None \<Rightarrow> True
        | Some ls \<Rightarrow> \<forall>l \<in> set ls. normalize (textContent (node_of doc l)) = [])"
  by (auto simp: native_label_def find_None_iff split: option.splits)

text \<open>
  What holds of the label lookup on every document. The fallback is consulted exactly when
  the element has no native label with non-empty normalized text (labels of whitespace
  only are skipped); a native label with text decides the result whatever
  \<open>aria-labelledby\<close> holds. The fallback puts the whole attribute value, unsplit and
  unquoted, into one id selector that is evaluated on the whole document: a value that
  is one identifier resolves the text of the first element of the document with that
  id, and a value that lists several ids, the second of them not a case flag, is a
  selector that the engine refuses.
\<close>

theorem label_text_fallback:
  "((native_label doc element = None)
      = (case labels doc element of
           None \<Rightarrow> True
         | Some ls \<Rightarrow> \<forall>l \<in> set ls. normalize (textContent (node_of doc l)) = []))
   \<and> (\<forall>l. native_label doc element = Some l \<longrightarrow>
          getLabelTextFor css_engine doc element = (Inr (Some (textContent (node_of doc l))) :: 'e error + string option))
   \<and> (\<forall>a. native_label doc element = None
          \<and> getAttribute (node_of doc element) ''aria-labelledby'' = Some a \<and> a \<noteq> [] \<longrightarrow>
          getLabelTextFor css_engine doc element
            = (thenE (document_querySelector css_engine doc (unquoted_id_selector a))
                 (\<lambda>label. Inr (map_option (\<lambda>l. textContent (node_of doc l)) label))
               :: 'e error + string option))
   \<and> (\<forall>a. native_label doc element = None
          \<and> getAttribute (node_of doc element) ''aria-labelledby'' = Some a \<and> plain_id a \<longrightarrow>
          getLabelTextFor css_engine doc element
            = (Inr (map_option (\<lambda>l. textContent (node_of doc l))
                      (find (\<lambda>p. getAttribute (node_of doc p) ''id'' = Some a) (element_paths doc)))
               :: 'e error + string option))
   \<and> (\<forall>a. native_label doc element = None
          \<and> getAttribute (node_of doc element) ''aria-labelledby'' = Some a \<and> several_ids a \<longrightarrow>
          getLabelTextFor css_engine doc element
            = (Inl (SyntaxError (unquoted_id_selector a)) :: 'e error + string option))"
proof (intro conjI allI impI)
  show "(native_label doc element = None)
      = (case labels doc element of
           None \<Rightarrow> True
         | Some ls \<Rightarrow> \<forall>l \<in> set ls. normalize (textContent (node_of doc l)) = [])"
    by (rule native_label_None)
next
  fix l
  assume "native_label doc element = Some l"
  then show "getLabelTextFor css_engine doc element = (Inr (Some (textContent (node_of doc l))) :: 'e error + string option)"
    by (simp add: getLabelTextFor_def thenE_simps)
next
  fix a
  assume "native_label doc element = None
          \<and> getAttribute (node_of doc element) ''aria-labelledby'' = Some a \<and> a \<noteq> []"
  then show "getLabelTextFor css_engine doc element
            = (thenE (document_querySelector css_engine doc (unquoted_id_selector a))
                 (\<lambda>label. Inr (map_option (\<lambda>l. textContent (node_of doc l)) label))
               :: 'e error + string option)"
    by (auto simp: getLabelTextFor_def thenE_def split: sum.splits option.splits)
next
  fix a
  assume h: "native_label doc element = None
          \<and> getAttribute (node_of doc element) ''aria-labelledby'' = Some a \<and> plain_id a"
  then have "a \<noteq> []" by (auto simp: plain_id_def valid_ident_def)
  with h show "getLabelTextFor css_engine doc element
            = (Inr (map_option (\<lambda>l. textContent (node_of doc l))
                      (find (\<lambda>p. getAttribute (node_of doc p) ''id'' = Some a) (element_paths doc)))
               :: 'e error + string option)"
    by (auto simp: getLabelTextFor_def document_querySelector_plain_id thenE_simps split: option.splits)
next
  fix a
  assume h: "native_label doc element = None
          \<and> getAttribute (node_of doc element) ''aria-labelledby'' = Some a \<and> several_ids a"
  then have "a \<noteq> []" using several_ids_nonempty by blast
  with h show "getLabelTextFor css_engine doc element
            = (Inl (SyntaxError (unquoted_id_selector a)) :: 'e error + string option)"
    by (simp add: getLabelTextFor_def document_querySelector_def css_engine_def parse_several_ids
        thenE_simps)
qed

text \<open>In \<open>label_lookup_document\<close>: the second label of the input is taken and its
  \<open>aria-labelledby\<close> is not consulted; a single id resolves the text of the span; a list
  of two ids raises.\<close>

theorem label_text_fallback_witness:
  "native_label label_lookup_document [2] = Some [1]
   \<and> labels label_lookup_document [2] = Some [[0], [1]]
   \<and> getLabelTextFor css_engine label_lookup_document [2] = (Inr (Some ''Email'') :: unit error + string option)
   \<and> native_label label_lookup_document [4] = None
   \<and> getLabelTextFor css_engine label_lookup_document [4] = (Inr (Some ''Note'') :: unit error + string option)
   \<and> getLabelTextFor css_engine label_lookup_document [6]
       = (Inl (SyntaxError ''[id=note hint]'') :: unit error + string option)"
proof -
  have n2: "native_label label_lookup_document [2] = Some [1]" by code_simp
  have l2: "labels label_lookup_document [2] = Some [[0], [1]]" by code_simp
  have t1: "textContent (node_of label_lookup_document [1]) = ''Email''" by code_simp
  have n4: "native_label label_lookup_document [4] = None" by code_simp
  have a4: "getAttribute (node_of label_lookup_document [4]) ''aria-labelledby'' = Some ''note''" by code_simp
  have p4: "plain_id ''note''" by code_simp
  have f4: "map_option (\<lambda>l. textContent (node_of label_lookup_document l))
              (find (\<lambda>p. getAttribute (node_of label_lookup_document p) ''id'' = Some ''note'')
                 (element_paths label_lookup_document)) = Some ''Note''" by code_simp
  have n6: "native_label label_lookup_document [6] = None" by code_simp
  have a6: "getAttribute (node_of label_lookup_document [6]) ''aria-labelledby'' = Some ''note hint''" by code_simp
  have s6: "several_ids ''note hint''" by code_simp
  have u6: "unquoted_id_selector ''note hint'' = ''[id=note hint]''" by code_simp
  have r2: "getLabelTextFor css_engine label_lookup_document [2] = (Inr (Some ''Email'') :: unit error + string option)"
    using label_text_fallback [of label_lookup_document "[2]", THEN conjunct2, THEN conjunct1,
            rule_format, OF n2] t1
    by simp
  have r4: "getLabelTextFor css_engine label_lookup_document [4] = (Inr (Some ''Note'') :: unit error + string option)"
    using label_text_fallback [of label_lookup_document "[4]", THEN conjunct2, THEN conjunct2,
            THEN conjunct2, THEN conjunct1, rule_format, OF conjI [OF n4 conjI [OF a4 p4]]] f4
    by simp
  have r6: "getLabelTextFor css_engine label_lookup_document [6]
              = (Inl (SyntaxError ''[id=note hint]'') :: unit error + string option)"
    using label_text_fallback [of label_lookup_document "[6]", THEN conjunct2, THEN conjunct2,
            THEN conjunct2, THEN conjunct2, rule_format, OF conjI [OF n6 conjI [OF a6 s6]]] u6
    by simp
  from n2 l2 r2 n4 r4 r6 show ?thesis by simp
qed

text \<open>
  Claim C10: the fallback takes the whole \<open>aria-labelledby\<close> value as one id that is
  looked up in the whole document, so an attribute that lists several ids resolves no
  label text. In \<open>email_label_document\<close> the value is the id of the first span, and the
  lookup raises the syntax error of the unquoted selector \<^verbatim>\<open>[id=email.label]\<close> instead
  of resolving the text of the span. In \<open>case_flag_document\<close> the attribute lists the ids
  \<open>a\<close> and \<open>i\<close>; without quotes the selector is \<^verbatim>\<open>[id=a i]\<close>, an id selector with
  the case flag, and the lookup resolves the text of the element with the id \<open>a\<close>.
\<close>

theorem whole_value_lookup_fails:
  "native_label email_label_document [1] = None
   \<and> getAttribute (node_of email_label_document [1]) ''aria-labelledby'' = Some ''email.label''
   \<and> find (\<lambda>p. getAttribute (node_of email_label_document p) ''id'' = Some ''email.label'')
         (element_paths email_label_document) = Some [0]
   \<and> textContent (node_of email_label_document [0]) = ''Email''
   \<and> getLabelTextFor css_engine email_label_document [1]
       = (Inl (SyntaxError ''[id=email.label]'') :: unit error + string option)
   \<and> native_label case_flag_document [2] = None
   \<and> getAttribute (node_of case_flag_document [2]) ''aria-labelledby'' = Some ''a i''
   \<and> token_list ''a i'' = [''a'', ''i'']
   \<and> getLabelTextFor css_engine case_flag_document [2] = (Inr (Some ''First'') :: unit error + string option)"
  by code_simp

section \<open>The priority order of the suggestions\<close>

text \<open>Where the label lookup returns and the value of the element is not a number, the
  suggestion is the first applicable candidate in the order role, label text,
  placeholder, own text, value, alt text, title; with a role the lookup is not reached.\<close>

lemma getSuggestedQuery_priority:
  assumes "\<forall>t. value_prop (node_of doc element) \<noteq> JNumber t"
  shows "getSuggestedQuery engine getRoles computeAccessibleName doc element variant =
     (if getRoles doc element = []
      then thenE (getLabelTextFor engine doc element) (\<lambda>labelText.
             Inr (first_applicable
                    (suggestion_candidates getRoles computeAccessibleName doc element variant labelText)))
      else Inr (first_applicable
                  (suggestion_candidates getRoles computeAccessibleName doc element variant None)))"
proof (cases "getRoles doc element")
  case (Cons role rest)
  then show ?thesis
    by (simp add: getSuggestedQuery_def suggestion_candidates_def)
next
  case Nil
  show ?thesis
  proof (cases "getLabelTextFor engine doc element :: 'a error + string option")
    case (Inl e)
    with Nil show ?thesis by (simp add: getSuggestedQuery_def thenE_simps)
  next
    case (Inr labelText)
    show ?thesis
    proof (cases "value_prop (node_of doc element)")
      case Undefined
      with Nil Inr show ?thesis
        by (simp add: getSuggestedQuery_def thenE_simps suggestion_candidates_def truthy_def Let_def
            split: option.splits)
    next
      case (JString s)
      with Nil Inr show ?thesis
        by (simp add: getSuggestedQuery_def thenE_simps suggestion_candidates_def truthy_def Let_def
            normalize_value_def split: option.splits)
    next
      case (JNumber t)
      with assms show ?thesis by blast
    qed
  qed
qed

text \<open>A number that is truthy raises where the value is reached.\<close>

lemma getSuggestedQuery_number:
  assumes "getRoles doc element = []"
    and "getLabelTextFor engine doc element = (Inr labelText :: 'e error + string option)"
    and "\<not> truthy labelText"
    and "\<not> truthy (getAttribute (node_of doc element) ''placeholder'')"
    and "normalize (textContent (node_of doc element)) = []"
    and "value_prop (node_of doc element) = JNumber t" and "t \<noteq> ''0''" and "t \<noteq> ''NaN''"
  shows "getSuggestedQuery engine getRoles computeAccessibleName doc element variant
           = (Inl TypeError :: 'e error + suggestion option)"
  using assms
  by (simp add: getSuggestedQuery_def thenE_simps normalize_value_def Let_def)

section \<open>Inputs on which the code leaves its specification\<close>

text \<open>
  Claim C5: a label whose own text matches the pattern is returned although a nested
  \<open>textarea\<close> has a value, and a label that matches only through the nested content is
  not. In \<open>own_text_lost_document\<close> the own text of the label is \<open>Notes\<close> and the value of
  its textarea is \<open>No\<close>: \<open>replace\<close> removes the first \<open>No\<close>, which belongs to the own
  text, so the text that is matched is \<open>tesNo\<close>. The label is not found by \<open>Notes\<close> and
  is found by \<open>tesNo\<close>.
\<close>

theorem own_text_of_label_lost:
  "getNodeText (node_of own_text_lost_document [0]) = ''Notes''
   \<and> tagName (node_of own_text_lost_document [0, 1]) = Some ''textarea''
   \<and> value_prop (node_of own_text_lost_document [0, 1]) = JString ''No''
   \<and> textContent (node_of own_text_lost_document [0]) = ''NotesNo''
   \<and> textToMatch_of css_engine own_text_lost_document [0] = (Inr ''tesNo'' :: unit error + string)
   \<and> queryAllLabelsByText css_engine own_text_lost_document [] (MString ''Notes'') exact_options
       = (Inr [] :: unit error + path list)
   \<and> queryAllLabelsByText css_engine own_text_lost_document [] (MString ''tesNo'') exact_options
       = (Inr [[0]] :: unit error + path list)"
  by code_simp

text \<open>
  Claim C8: the caller's normalization is applied in the \<open>aria-label\<close> mechanism as in
  the others. With a normalizer that drops hyphens the pattern \<open>Name\<close> matches the label
  text \<open>N-a-m-e\<close>, and it would match the \<open>aria-label\<close> \<open>N-a-m-e\<close> of the second input
  under that normalizer; the query returns the first input only, because
  \<open>queryAllByAttribute\<close> is called without the normalizer.
\<close>

theorem aria_label_ignores_normalizer:
  "queryAllLabelsByText css_engine normalizer_document [] (MString ''Name'') dashless_options
       = (Inr [[0]] :: unit error + path list)
   \<and> getAttribute (node_of normalizer_document [2]) ''aria-label'' = Some ''N-a-m-e''
   \<and> matches (Some ''N-a-m-e'') (node_of normalizer_document [2]) (MString ''Name'') dashless
   \<and> queryAllByLabelText css_engine normalizer_document [] (MString ''Name'') dashless_options
       = (Inr [Some [1]] :: unit error + path option list)"
  by code_simp

text \<open>
  Claim C6: \<open>getSuggestedQuery\<close> never raises on its own account. For an element without
  a role whose \<open>aria-labelledby\<close> is \<open>user.name\<close>, the id of an element of the document,
  the unquoted selector \<^verbatim>\<open>[id=user.name]\<close> is a syntax error, and the suggestion raises
  it.
\<close>

theorem getSuggestedQuery_raises:
  "getAttribute (node_of dotted_id_document [0]) ''id'' = Some ''user.name''
   \<and> getAttribute (node_of dotted_id_document [1]) ''aria-labelledby'' = Some ''user.name''
   \<and> getLabelTextFor css_engine dotted_id_document [1]
       = (Inl (SyntaxError ''[id=user.name]'') :: unit error + string option)
   \<and> getSuggestedQuery css_engine no_roles no_name dotted_id_document [1] ''get''
       = (Inl (SyntaxError ''[id=user.name]'') :: unit error + suggestion option)"
  by code_simp

text \<open>
  Claim C1: for every element the first applicable candidate in priority order is
  returned. For an element without a role, with a title and an \<open>aria-labelledby\<close> that
  lists two ids, no label text is resolved and the title is the first candidate that
  applies; the suggestion raises the syntax error of the label lookup instead.
\<close>

theorem applicable_title_not_returned:
  "no_roles titled_document [0] = []
   \<and> getAttribute (node_of titled_document [0]) ''title'' = Some ''Tooltip''
   \<and> first_applicable (suggestion_candidates no_roles no_name titled_document [0] ''get'' None)
       = Some (makeSuggestion ''Title'' ''Tooltip'' ''get'' None)
   \<and> getSuggestedQuery css_engine no_roles no_name titled_document [0] ''get''
       = (Inl (SyntaxError ''[id=title hint]'') :: unit error + suggestion option)"
  by code_simp

end
